theory Spec2Isabelle
  imports Main "HOL-Library.Word"
begin

section \<open>CoverageFilterManager.cpp\<close>

subsection \<open>Collaborators of the filter manager\<close>

text \<open>
  The wildcard filter and the unified-diff filters are classes declared elsewhere; the
  manager only calls their predicates. They are taken as records of the answers they give.
  File names (\<open>std::wstring\<close>) are strings; line numbers (\<open>int\<close>) are only compared,
  never computed with, so they are integers. A \<open>boost::filesystem::path\<close> is a value
  of a linearly ordered type \<open>'p\<close> (the order is the one \<open>std::set\<close> uses for
  paths), printed by a function \<open>wstring\<close>.
\<close>

record WildcardCoverageFilter =
  Wildcard_IsModuleSelected :: "string \<Rightarrow> bool"
  Wildcard_IsSourceFileSelected :: "string \<Rightarrow> bool"

record 'p UnifiedDiffCoverageFilter =
  Diff_IsSourceFileSelected :: "string \<Rightarrow> bool"
  Diff_IsLineSelected :: "string \<Rightarrow> int \<Rightarrow> bool"
  Diff_GetUnmatchedPaths :: "'p list"

text \<open>
  The members \<open>wildcardCoverageFilter_\<close> and \<open>unifiedDiffCoverageFilters_\<close> lose their
  trailing underscore, which an Isabelle name cannot end with.
\<close>

record 'p CoverageFilterManager =
  wildcardCoverageFilter :: WildcardCoverageFilter
  unifiedDiffCoverageFilters :: "'p UnifiedDiffCoverageFilter list"

subsection \<open>Helpers of the anonymous namespace\<close>

text \<open>\<open>AnyOfOrTrueIfEmpty\<close>: true on an empty container, \<open>std::any_of\<close> otherwise.\<close>

definition AnyOfOrTrueIfEmpty :: "'a list \<Rightarrow> ('a \<Rightarrow> bool) \<Rightarrow> bool" where
  "AnyOfOrTrueIfEmpty container fct =
     (if container = [] then True else list_ex fct container)"

text \<open>
  A \<open>std::set\<close> is a finite set that is traversed in ascending order; an iterator is a
  position in that traversal, \<open>begin()\<close> is position 0 and \<open>end()\<close> is its length.
  \<open>lower_bound\<close> is the position of the first element that is not less than the key.
\<close>

fun lower_bound :: "'a::linorder list \<Rightarrow> 'a \<Rightarrow> nat" where
  "lower_bound [] key = 0"
| "lower_bound (x # xs) key = (if x < key then Suc (lower_bound xs key) else 0)"

definition GetExecutableLineOrPreviousOne :: "int \<Rightarrow> int set \<Rightarrow> int option" where
  "GetExecutableLineOrPreviousOne lineNumber executableLinesSet =
     (let elems = sorted_list_of_set executableLinesSet;
          it = lower_bound elems lineNumber
      in if it \<noteq> length elems \<and> elems ! it = lineNumber then Some lineNumber
         else if it = 0 then None
         else Some (elems ! (it - 1)))"

subsection \<open>The predicates of the manager\<close>

definition IsModuleSelected :: "'p CoverageFilterManager \<Rightarrow> string \<Rightarrow> bool" where
  "IsModuleSelected m filename =
     Wildcard_IsModuleSelected (wildcardCoverageFilter m) filename"

definition IsSourceFileSelected :: "'p CoverageFilterManager \<Rightarrow> string \<Rightarrow> bool" where
  "IsSourceFileSelected m filename =
     (if \<not> Wildcard_IsSourceFileSelected (wildcardCoverageFilter m) filename then False
      else AnyOfOrTrueIfEmpty (unifiedDiffCoverageFilters m)
             (\<lambda>filter. Diff_IsSourceFileSelected filter filename))"

definition IsLineSelected ::
  "'p CoverageFilterManager \<Rightarrow> string \<Rightarrow> int \<Rightarrow> int set \<Rightarrow> bool" where
  "IsLineSelected m filename lineNumber executableLinesSet =
     (if unifiedDiffCoverageFilters m = [] then True
      else case GetExecutableLineOrPreviousOne lineNumber executableLinesSet of
             None \<Rightarrow> False
           | Some executableLineNumber \<Rightarrow>
               AnyOfOrTrueIfEmpty (unifiedDiffCoverageFilters m)
                 (\<lambda>filter. Diff_IsLineSelected filter filename executableLineNumber))"

text \<open>
  The reference definition of line selection, written from the specification: no diff
  filter selects everything; otherwise the line is resolved to itself when it is
  executable, to the largest executable line below it when there is one, and is
  rejected when there is none; a resolved line is selected when some diff filter
  accepts it.
\<close>

definition IsLineSelected_reference ::
  "'p CoverageFilterManager \<Rightarrow> string \<Rightarrow> int \<Rightarrow> int set \<Rightarrow> bool" where
  "IsLineSelected_reference m filename lineNumber S =
     (if unifiedDiffCoverageFilters m = [] then True
      else if lineNumber \<in> S then
        (\<exists>filter \<in> set (unifiedDiffCoverageFilters m).
            Diff_IsLineSelected filter filename lineNumber)
      else if (\<exists>s \<in> S. s < lineNumber) then
        (\<exists>filter \<in> set (unifiedDiffCoverageFilters m).
            Diff_IsLineSelected filter filename (Max {s \<in> S. s < lineNumber}))
      else False)"

subsection \<open>The warning about unmatched paths\<close>

text \<open>
  \<open>Tools::GetSeparatorLine()\<close> and \<open>ProgramOptions::VerboseOption\<close> are defined
  outside these sources and are parameters. \<open>std::to_wstring\<close> of a \<open>size_t\<close> is its
  decimal representation.
\<close>

record Tools =
  GetSeparatorLine :: string
  VerboseOption :: string

definition digit_char :: "nat \<Rightarrow> char" where
  "digit_char d = char_of (48 + d)"

function to_wstring :: "nat \<Rightarrow> string" where
  "to_wstring n =
     (if n < 10 then [digit_char n] else to_wstring (n div 10) @ [digit_char (n mod 10)])"
  by pat_completeness auto
termination
  by (relation "measure id") auto

declare to_wstring.simps [simp del]

text \<open>
  The \<open>for\<close> loop over the set of paths, with its counter \<open>i\<close> and the lines pushed
  so far: once \<open>i\<close> has reached \<open>maxUnmatchPaths\<close> the next path pushes the ellipsis
  line and leaves the loop.
\<close>

fun unmatchPaths_loop ::
  "('p \<Rightarrow> string) \<Rightarrow> nat \<Rightarrow> 'p list \<Rightarrow> nat \<Rightarrow> string list \<Rightarrow> string list" where
  "unmatchPaths_loop wstring maxUnmatchPaths [] i messageLines = messageLines"
| "unmatchPaths_loop wstring maxUnmatchPaths (path # rest) i messageLines =
     (if i \<ge> maxUnmatchPaths then messageLines @ [CHR 0x09 # ''...'']
      else unmatchPaths_loop wstring maxUnmatchPaths rest (Suc i)
             (messageLines @ [(CHR 0x09 # ''- '') @ wstring path]))"

definition ComputeWarningMessageLines_paths ::
  "Tools \<Rightarrow> ('p::linorder \<Rightarrow> string) \<Rightarrow> 'p set \<Rightarrow> nat \<Rightarrow> string list" where
  "ComputeWarningMessageLines_paths tools wstring unmatchPaths maxUnmatchPaths =
     (if unmatchPaths \<noteq> {} then
        unmatchPaths_loop wstring maxUnmatchPaths (sorted_list_of_set unmatchPaths) 0
          [GetSeparatorLine tools,
           ''You have '' @ to_wstring (card unmatchPaths)
             @ '' path(s) inside unified diff file(s) that were ignored'',
           ''because they did not match any path from pdb files.'',
           ''To see all files use --'' @ VerboseOption tools]
      else [])"

definition ComputeWarningMessageLines ::
  "Tools \<Rightarrow> ('p::linorder \<Rightarrow> string) \<Rightarrow> 'p CoverageFilterManager \<Rightarrow> nat \<Rightarrow> string list" where
  "ComputeWarningMessageLines tools wstring m maxUnmatchPaths =
     ComputeWarningMessageLines_paths tools wstring
       (fold (\<lambda>filter unmatchPaths. unmatchPaths \<union> set (Diff_GetUnmatchedPaths filter))
          (unifiedDiffCoverageFilters m) {})
       maxUnmatchPaths"

text \<open>The message the specification describes, for \<open>N\<close> paths of which \<open>K\<close> are shown.\<close>

definition warning_header :: "Tools \<Rightarrow> nat \<Rightarrow> string list" where
  "warning_header tools N =
     [GetSeparatorLine tools,
      ''You have '' @ to_wstring N
        @ '' path(s) inside unified diff file(s) that were ignored'',
      ''because they did not match any path from pdb files.'',
      ''To see all files use --'' @ VerboseOption tools]"

definition path_line :: "('p \<Rightarrow> string) \<Rightarrow> 'p \<Rightarrow> string" where
  "path_line wstring path = (CHR 0x09 # ''- '') @ wstring path"

definition ellipsis_line :: string where
  "ellipsis_line = CHR 0x09 # ''...''"

section \<open>Debugger.cpp\<close>

subsection \<open>Events, the handler's classification and the debugger object\<close>

text \<open>
  \<open>DWORD\<close> is an unsigned 32-bit integer; a \<open>HANDLE\<close> is opaque. A \<open>DEBUG_EVENT\<close>
  is a tagged union: the event code selects the member of \<open>u\<close> that is read, so the
  code and that member form one datatype. Of every member only what the debugger reads
  is kept: the three handles of \<open>CreateProcessInfo\<close>, the thread handle of
  \<open>CreateThread\<close>, \<open>dwExitCode\<close> of \<open>ExitProcess\<close>, \<open>hFile\<close> of \<open>LoadDll\<close>, and
  \<open>ExceptionRecord.ExceptionCode\<close> with \<open>dwFirstChance\<close> (as a truth value) of
  \<open>Exception\<close>. \<open>OTHER_DEBUG_EVENT\<close> stands for any remaining event code.
\<close>

type_synonym DWORD = "32 word"
type_synonym HANDLE = "64 word"

datatype dwDebugEventCode_and_u =
    CREATE_PROCESS_DEBUG_EVENT HANDLE HANDLE HANDLE
  | CREATE_THREAD_DEBUG_EVENT HANDLE
  | EXIT_PROCESS_DEBUG_EVENT DWORD
  | EXIT_THREAD_DEBUG_EVENT
  | LOAD_DLL_DEBUG_EVENT HANDLE
  | UNLOAD_DLL_DEBUG_EVENT
  | EXCEPTION_DEBUG_EVENT DWORD bool
  | RIP_EVENT
  | OTHER_DEBUG_EVENT DWORD

record DEBUG_EVENT =
  dwDebugEventCode :: dwDebugEventCode_and_u
  dwProcessId :: DWORD
  dwThreadId :: DWORD

text \<open>
  \<open>IDebugEventsHandler::ExceptionType\<close> has five enumerators. The \<open>switch\<close> of
  \<open>OnException\<close> has no \<open>default\<close>, and a value of the enumeration type that is none
  of the five falls through to the \<open>THROW\<close> after it: \<open>NoEnumerator\<close> is such a value.
\<close>

datatype ExceptionType =
  BreakPoint | InvalidBreakPoint | NotHandled | Error | CppError | NoEnumerator

text \<open>
  The handler (\<open>IDebugEventsHandler\<close>) is outside these sources. The debugger calls it
  at most once while it handles an event: \<open>OnCreateProcess\<close>, \<open>OnExitProcess\<close>,
  \<open>OnLoadDll\<close>, \<open>OnUnloadDll\<close> or \<open>OnException\<close>. The call either raises an exception,
  which leaves the debugger through every function on the way, or returns; only
  \<open>OnException\<close> returns a value, the classification, and for the other four the value in
  \<open>Handler_returns\<close> is not looked at.
\<close>

datatype handler_outcome =
    Handler_raises
  | Handler_returns ExceptionType

text \<open>The Windows constants the file uses, with their values in the platform headers.\<close>

definition DBG_CONTINUE :: DWORD where
  "DBG_CONTINUE = 0x00010002"

definition DBG_EXCEPTION_NOT_HANDLED :: DWORD where
  "DBG_EXCEPTION_NOT_HANDLED = 0x80010001"

definition EXCEPTION_BREAKPOINT :: DWORD where
  "EXCEPTION_BREAKPOINT = 0x80000003"

definition DEBUG_PROCESS :: DWORD where
  "DEBUG_PROCESS = 0x00000001"

definition DEBUG_ONLY_THIS_PROCESS :: DWORD where
  "DEBUG_ONLY_THIS_PROCESS = 0x00000002"

text \<open>
  \<open>ProcessStatus\<close>: an optional exit code (a C++ \<open>int\<close>, here the signed value of the
  32 bits) and an optional continue status. The default constructor leaves both empty.
\<close>

record ProcessStatus =
  exitCode :: "int option"
  continueStatus :: "DWORD option"

definition ProcessStatus_default :: ProcessStatus where
  "ProcessStatus_default = \<lparr> exitCode = None, continueStatus = None \<rparr>"

text \<open>
  The \<open>Debugger\<close> object: its four flags and the dump directory, fixed at construction,
  and the two handle tables and the root process id, which \<open>Debug\<close> changes. The
  members are named as in the class, without the trailing underscore.
\<close>

record Debugger =
  coverChildren :: bool
  continueAfterCppException :: bool
  stopOnAssert :: bool
  dumpOnCrash :: bool
  dumpDirectory :: string
  processHandles :: "DWORD \<rightharpoonup> HANDLE"
  threadHandles :: "DWORD \<rightharpoonup> HANDLE"
  rootProcessId :: "DWORD option"

text \<open>
  The constructor stores its arguments; the tables start empty and the root process id
  unset.
\<close>

definition Debugger_new :: "bool \<Rightarrow> bool \<Rightarrow> bool \<Rightarrow> bool \<Rightarrow> string \<Rightarrow> Debugger" where
  "Debugger_new cover continue stop dump directory =
     \<lparr> coverChildren = cover, continueAfterCppException = continue, stopOnAssert = stop,
       dumpOnCrash = dump, dumpDirectory = directory, processHandles = Map.empty,
       threadHandles = Map.empty, rootProcessId = None \<rparr>"

text \<open>
  What leaves the file as an exception: \<open>THROW\<close> with its message, \<open>THROW_LAST_ERROR\<close>
  with its message, the \<open>std::out_of_range\<close> of \<open>at()\<close> on a table that lacks the key,
  and whatever a callback of the handler raises.
\<close>

datatype error =
    CppCoverageException string
  | LastError string
  | std_out_of_range
  | HandlerRaised

text \<open>
  The calls into the operating system and the dump writer that the model records, in the
  order they are made: starting the process with its creation flag, asking for a minidump
  of a process and thread, and resuming a process and thread with a continue status.
  Log lines and the closing of the file handles that come with an event are not recorded.
\<close>

datatype os_call =
    Process_Start DWORD
  | CreateMiniDumpFromException DWORD DWORD
  | ContinueDebugEvent DWORD DWORD DWORD

subsection \<open>The handle tables\<close>

definition OnCreateThread :: "Debugger \<Rightarrow> HANDLE \<Rightarrow> DWORD \<Rightarrow> error + Debugger" where
  "OnCreateThread d hThread tid =
     (if threadHandles d tid \<noteq> None
      then Inl (CppCoverageException ''Thread id already exist'')
      else Inr (d\<lparr>threadHandles := (threadHandles d)(tid \<mapsto> hThread)\<rparr>))"

definition OnExitThread :: "Debugger \<Rightarrow> DWORD \<Rightarrow> error + Debugger" where
  "OnExitThread d tid =
     (if threadHandles d tid = None
      then Inl (CppCoverageException ''Cannot find exited thread.'')
      else Inr (d\<lparr>threadHandles := (threadHandles d)(tid := None)\<rparr>))"

text \<open>
  \<open>OnCreateProcess\<close> is called on a \<open>CREATE_PROCESS_DEBUG_EVENT\<close> only; it reads the
  process and thread handles of \<open>u.CreateProcessInfo\<close>, which are passed to it here.
  Between the insertion of the process and that of its initial thread it notifies the
  handler; \<open>debugEventsHandler\<close> is what that call does.
\<close>

definition OnCreateProcess ::
  "Debugger \<Rightarrow> DEBUG_EVENT \<Rightarrow> handler_outcome \<Rightarrow> HANDLE \<Rightarrow> HANDLE \<Rightarrow> error + Debugger" where
  "OnCreateProcess d debugEvent debugEventsHandler hProcess hThread =
     (let d1 = (if rootProcessId d = None \<and> processHandles d = Map.empty
                then d\<lparr>rootProcessId := Some (dwProcessId debugEvent)\<rparr> else d)
      in if processHandles d1 (dwProcessId debugEvent) \<noteq> None
         then Inl (CppCoverageException ''Process id already exist'')
         else if debugEventsHandler = Handler_raises then Inl HandlerRaised
         else OnCreateThread
                (d1\<lparr>processHandles := (processHandles d1)(dwProcessId debugEvent \<mapsto> hProcess)\<rparr>)
                hThread (dwThreadId debugEvent))"

text \<open>
  \<open>OnExitProcess\<close> is called on an \<open>EXIT_PROCESS_DEBUG_EVENT\<close> only; it returns
  \<open>u.ExitProcess.dwExitCode\<close>, a \<open>DWORD\<close>, as an \<open>int\<close>. It notifies the handler after
  the exiting thread has left the thread table and before the process leaves its table.
\<close>

definition OnExitProcess ::
  "Debugger \<Rightarrow> DEBUG_EVENT \<Rightarrow> DWORD \<Rightarrow> handler_outcome \<Rightarrow> error + int \<times> Debugger" where
  "OnExitProcess d debugEvent dwExitCode debugEventsHandler =
     (case OnExitThread d (dwThreadId debugEvent) of
        Inl e \<Rightarrow> Inl e
      | Inr d1 \<Rightarrow>
          if debugEventsHandler = Handler_raises then Inl HandlerRaised
          else if processHandles d1 (dwProcessId debugEvent) = None
          then Inl (CppCoverageException ''Cannot find exited process.'')
          else Inr (sint dwExitCode,
                 d1\<lparr>processHandles := (processHandles d1)(dwProcessId debugEvent := None)\<rparr>))"

definition GetProcessHandle :: "Debugger \<Rightarrow> DWORD \<Rightarrow> error + HANDLE" where
  "GetProcessHandle d pid =
     (case processHandles d pid of None \<Rightarrow> Inl std_out_of_range | Some h \<Rightarrow> Inr h)"

definition GetThreadHandle :: "Debugger \<Rightarrow> DWORD \<Rightarrow> error + HANDLE" where
  "GetThreadHandle d tid =
     (case threadHandles d tid of None \<Rightarrow> Inl std_out_of_range | Some h \<Rightarrow> Inr h)"

subsection \<open>Exceptions and crash dumps\<close>

text \<open>
  \<open>HandleCrashDump\<close> returns nothing; what it does is ask for a minidump, or not. The
  result is the list of the calls it makes. Reading the thread context, building the file
  name from the clock and logging whether the dump was written are left out: whether
  \<open>CreateMiniDumpFromException\<close> succeeds changes nothing but the log.
\<close>

definition HandleCrashDump :: "Debugger \<Rightarrow> DEBUG_EVENT \<Rightarrow> bool \<Rightarrow> bool \<Rightarrow> os_call list" where
  "HandleCrashDump d debugEvent dwFirstChance includeFirstChance =
     (if \<not> dumpOnCrash d then []
      else if dwFirstChance \<and> \<not> includeFirstChance then []
      else [CreateMiniDumpFromException (dwProcessId debugEvent) (dwThreadId debugEvent)])"

text \<open>
  \<open>OnException\<close> first asks the handler to classify the exception. The handler may
  answer differently from one event to the next, so what its call does is the argument
  \<open>debugEventsHandler\<close>: it raises, or it returns \<open>exceptionType\<close>.
\<close>

definition OnException ::
  "Debugger \<Rightarrow> DEBUG_EVENT \<Rightarrow> DWORD \<Rightarrow> bool \<Rightarrow> handler_outcome
     \<Rightarrow> error + ProcessStatus \<times> os_call list" where
  "OnException d debugEvent ExceptionCode dwFirstChance debugEventsHandler =
     (case debugEventsHandler of
        Handler_raises \<Rightarrow> Inl HandlerRaised
      | Handler_returns exceptionType \<Rightarrow>
          (case exceptionType of
             BreakPoint \<Rightarrow>
               Inr (\<lparr> exitCode = None, continueStatus = Some DBG_CONTINUE \<rparr>, [])
           | InvalidBreakPoint \<Rightarrow>
               (let dump = HandleCrashDump d debugEvent dwFirstChance True
                in if stopOnAssert d
                   then Inr (\<lparr> exitCode = None,
                               continueStatus = Some DBG_EXCEPTION_NOT_HANDLED \<rparr>, dump)
                   else Inr (\<lparr> exitCode = Some (sint EXCEPTION_BREAKPOINT),
                               continueStatus = Some DBG_CONTINUE \<rparr>, dump))
           | NotHandled \<Rightarrow>
               Inr (\<lparr> exitCode = None, continueStatus = Some DBG_EXCEPTION_NOT_HANDLED \<rparr>,
                    HandleCrashDump d debugEvent dwFirstChance False)
           | Error \<Rightarrow>
               Inr (\<lparr> exitCode = None, continueStatus = Some DBG_EXCEPTION_NOT_HANDLED \<rparr>,
                    HandleCrashDump d debugEvent dwFirstChance False)
           | CppError \<Rightarrow>
               (let dump = HandleCrashDump d debugEvent dwFirstChance False
                in if continueAfterCppException d
                   then Inr (\<lparr> exitCode = Some (sint ExceptionCode),
                               continueStatus = Some DBG_CONTINUE \<rparr>, dump)
                   else Inr (\<lparr> exitCode = None,
                               continueStatus = Some DBG_EXCEPTION_NOT_HANDLED \<rparr>, dump))
           | NoEnumerator \<Rightarrow>
               Inl (CppCoverageException ''Invalid exception Type.'')))"

subsection \<open>Dispatch of one event\<close>

text \<open>
  The functions that change the tables return the new debugger; those that can ask for a
  dump also return the calls made. \<open>debugEventsHandler\<close> is what the one call of the
  handler does, if handling the event makes one: a \<open>LOAD_DLL\<close> and an \<open>UNLOAD_DLL\<close>
  event notify it here, the other events inside the function they are passed to, and
  \<open>CREATE_THREAD\<close>, \<open>EXIT_THREAD\<close>, \<open>RIP\<close> and the remaining events not at all.
\<close>

definition HandleNotCreationalEvent ::
  "Debugger \<Rightarrow> DEBUG_EVENT \<Rightarrow> handler_outcome \<Rightarrow> HANDLE \<Rightarrow> HANDLE \<Rightarrow> DWORD
     \<Rightarrow> error + ProcessStatus \<times> Debugger \<times> os_call list" where
  "HandleNotCreationalEvent d debugEvent debugEventsHandler hProcess hThread tid =
     (case dwDebugEventCode debugEvent of
        EXIT_PROCESS_DEBUG_EVENT dwExitCode \<Rightarrow>
          (case OnExitProcess d debugEvent dwExitCode debugEventsHandler of
             Inl e \<Rightarrow> Inl e
           | Inr (code, d') \<Rightarrow>
               Inr (\<lparr> exitCode = Some code, continueStatus = None \<rparr>, d', []))
      | EXIT_THREAD_DEBUG_EVENT \<Rightarrow>
          (case OnExitThread d tid of
             Inl e \<Rightarrow> Inl e
           | Inr d' \<Rightarrow> Inr (ProcessStatus_default, d', []))
      | LOAD_DLL_DEBUG_EVENT hFile \<Rightarrow>
          (if debugEventsHandler = Handler_raises then Inl HandlerRaised
           else Inr (ProcessStatus_default, d, []))
      | UNLOAD_DLL_DEBUG_EVENT \<Rightarrow>
          (if debugEventsHandler = Handler_raises then Inl HandlerRaised
           else Inr (ProcessStatus_default, d, []))
      | EXCEPTION_DEBUG_EVENT ExceptionCode dwFirstChance \<Rightarrow>
          (case OnException d debugEvent ExceptionCode dwFirstChance debugEventsHandler of
             Inl e \<Rightarrow> Inl e
           | Inr (status, calls) \<Rightarrow> Inr (status, d, calls))
      | RIP_EVENT \<Rightarrow> Inr (ProcessStatus_default, d, [])
      | _ \<Rightarrow> Inr (ProcessStatus_default, d, []))"

definition HandleDebugEvent ::
  "Debugger \<Rightarrow> DEBUG_EVENT \<Rightarrow> handler_outcome
     \<Rightarrow> error + ProcessStatus \<times> Debugger \<times> os_call list" where
  "HandleDebugEvent d debugEvent debugEventsHandler =
     (case dwDebugEventCode debugEvent of
        CREATE_PROCESS_DEBUG_EVENT hFile hProcess hThread \<Rightarrow>
          (case OnCreateProcess d debugEvent debugEventsHandler hProcess hThread of
             Inl e \<Rightarrow> Inl e
           | Inr d' \<Rightarrow> Inr (ProcessStatus_default, d', []))
      | CREATE_THREAD_DEBUG_EVENT hThread \<Rightarrow>
          (case OnCreateThread d hThread (dwThreadId debugEvent) of
             Inl e \<Rightarrow> Inl e
           | Inr d' \<Rightarrow> Inr (ProcessStatus_default, d', []))
      | _ \<Rightarrow>
          (case GetProcessHandle d (dwProcessId debugEvent) of
             Inl e \<Rightarrow> Inl e
           | Inr hProcess \<Rightarrow>
               (case GetThreadHandle d (dwThreadId debugEvent) of
                  Inl e \<Rightarrow> Inl e
                | Inr hThread \<Rightarrow>
                    HandleNotCreationalEvent d debugEvent debugEventsHandler hProcess hThread
                      (dwThreadId debugEvent))))"

subsection \<open>The loop of Debug\<close>

text \<open>
  The operating system and the handler are scripted. One step of the script says what
  one pass through the loop meets: whether \<open>WaitForDebugEvent\<close> succeeds and which
  event it delivers (\<open>None\<close>: it returns false), what the call of the handler does if
  the event leads to one (it raises, or it returns, with the classification if the event
  is an exception), and whether \<open>ContinueDebugEvent\<close> succeeds.
\<close>

record os_step =
  delivered :: "DEBUG_EVENT option"
  handler :: handler_outcome
  continue_ok :: bool

text \<open>
  The state of the loop: the local \<open>exitCode\<close>, the debugger object and the calls made
  so far. \<open>Debug_continues\<close> is the condition of the \<open>while\<close>;
  \<open>Debug_iteration\<close> is its body.
\<close>

type_synonym loop_state = "int option \<times> Debugger \<times> os_call list"

fun Debug_continues :: "loop_state \<Rightarrow> bool" where
  "Debug_continues (latch, d, calls) = (latch = None \<or> processHandles d \<noteq> Map.empty)"

fun Debug_iteration :: "os_step \<Rightarrow> loop_state \<Rightarrow> error + loop_state" where
  "Debug_iteration step (latch, d, calls) =
     (case delivered step of
        None \<Rightarrow> Inl (LastError ''Error WaitForDebugEvent:'')
      | Some debugEvent \<Rightarrow>
          (case HandleDebugEvent d debugEvent (handler step) of
             Inl e \<Rightarrow> Inl e
           | Inr (processStatus, d', dump) \<Rightarrow>
               (let latch' =
                      (if exitCode processStatus \<noteq> None
                          \<and> rootProcessId d' = Some (dwProcessId debugEvent)
                          \<and> latch = None
                       then exitCode processStatus else latch);
                    status = (case continueStatus processStatus of
                                None \<Rightarrow> DBG_CONTINUE | Some c \<Rightarrow> c)
                in if \<not> continue_ok step
                   then Inl (LastError ''Error in ContinueDebugEvent:'')
                   else Inr (latch', d',
                          calls @ dump @
                          [ContinueDebugEvent (dwProcessId debugEvent)
                             (dwThreadId debugEvent) status]))))"

text \<open>
  The result of \<open>Debug\<close>: it returns the exit code, or throws, or the script ends while
  the loop still waits for an event (\<open>WaitForDebugEvent\<close> has an infinite timeout). The
  first and the last carry the debugger and the calls made. The loop is left only when
  \<open>exitCode\<close> is set, so the value that \<open>*exitCode\<close> reads is there.
\<close>

datatype outcome =
    Returns int Debugger "os_call list"
  | Throws error
  | Waits Debugger "os_call list"

fun Debug_loop :: "loop_state \<Rightarrow> os_step list \<Rightarrow> outcome" where
  "Debug_loop (latch, d, calls) [] =
     (if Debug_continues (latch, d, calls) then Waits d calls
      else Returns (the latch) d calls)"
| "Debug_loop (latch, d, calls) (step # script) =
     (if Debug_continues (latch, d, calls) then
        (case Debug_iteration step (latch, d, calls) of
           Inl e \<Rightarrow> Throws e
         | Inr s' \<Rightarrow> Debug_loop s' script)
      else Returns (the latch) d calls)"

text \<open>
  \<open>Debug\<close> starts the process (a call of the \<open>Process\<close> class, which is outside these
  sources and is taken to succeed), clears the tables and the root process id, and runs
  the loop.
\<close>

definition Debug_start :: "Debugger \<Rightarrow> loop_state" where
  "Debug_start d =
     (None,
      d\<lparr>processHandles := Map.empty, threadHandles := Map.empty, rootProcessId := None\<rparr>,
      [Process_Start (if coverChildren d then DEBUG_PROCESS else DEBUG_ONLY_THIS_PROCESS)])"

definition Debug :: "Debugger \<Rightarrow> os_step list \<Rightarrow> outcome" where
  "Debug d script = Debug_loop (Debug_start d) script"

text \<open>
  The state the loop is in once it has handled every step of \<open>steps\<close>, one after the
  other: \<open>None\<close> when it leaves the loop or throws before the last of them is handled.
\<close>

fun Debug_after :: "loop_state \<Rightarrow> os_step list \<Rightarrow> loop_state option" where
  "Debug_after s [] = Some s"
| "Debug_after s (step # steps) =
     (if Debug_continues s then
        (case Debug_iteration step s of
           Inl e \<Rightarrow> None
         | Inr s' \<Rightarrow> Debug_after s' steps)
      else None)"

section \<open>What the specification says about a run\<close>

text \<open>
  The kinds of event the statements below speak of, and the process and thread a step
  of the script is about.
\<close>

fun is_create_process :: "dwDebugEventCode_and_u \<Rightarrow> bool" where
  "is_create_process (CREATE_PROCESS_DEBUG_EVENT hFile hProcess hThread) = True"
| "is_create_process _ = False"

fun is_create_thread :: "dwDebugEventCode_and_u \<Rightarrow> bool" where
  "is_create_thread (CREATE_THREAD_DEBUG_EVENT hThread) = True"
| "is_create_thread _ = False"

fun is_exit_process :: "dwDebugEventCode_and_u \<Rightarrow> bool" where
  "is_exit_process (EXIT_PROCESS_DEBUG_EVENT dwExitCode) = True"
| "is_exit_process _ = False"

fun is_exit_thread :: "dwDebugEventCode_and_u \<Rightarrow> bool" where
  "is_exit_thread EXIT_THREAD_DEBUG_EVENT = True"
| "is_exit_thread _ = False"

fun is_exception :: "dwDebugEventCode_and_u \<Rightarrow> bool" where
  "is_exception (EXCEPTION_DEBUG_EVENT ExceptionCode dwFirstChance) = True"
| "is_exception _ = False"

definition creates_process :: "os_step \<Rightarrow> DWORD \<Rightarrow> bool" where
  "creates_process step pid =
     (case delivered step of None \<Rightarrow> False
      | Some e \<Rightarrow> dwProcessId e = pid \<and> is_create_process (dwDebugEventCode e))"

definition exits_process :: "os_step \<Rightarrow> DWORD \<Rightarrow> bool" where
  "exits_process step pid =
     (case delivered step of None \<Rightarrow> False
      | Some e \<Rightarrow> dwProcessId e = pid \<and> is_exit_process (dwDebugEventCode e))"

text \<open>
  A thread id enters the table with a \<open>CREATE_THREAD\<close> event and, as the initial thread,
  with a \<open>CREATE_PROCESS\<close> event; it leaves with an \<open>EXIT_THREAD\<close> event and, as the
  exiting thread, with an \<open>EXIT_PROCESS\<close> event.
\<close>

definition creates_thread :: "os_step \<Rightarrow> DWORD \<Rightarrow> bool" where
  "creates_thread step tid =
     (case delivered step of None \<Rightarrow> False
      | Some e \<Rightarrow> dwThreadId e = tid
          \<and> (is_create_thread (dwDebugEventCode e) \<or> is_create_process (dwDebugEventCode e)))"

definition exits_thread :: "os_step \<Rightarrow> DWORD \<Rightarrow> bool" where
  "exits_thread step tid =
     (case delivered step of None \<Rightarrow> False
      | Some e \<Rightarrow> dwThreadId e = tid
          \<and> (is_exit_thread (dwDebugEventCode e) \<or> is_exit_process (dwDebugEventCode e)))"

text \<open>
  An id is live after a sequence of steps when one of them created it and none of the
  later ones removed it: its creation has been seen and its exit has not.
\<close>

definition live_after ::
  "('s \<Rightarrow> 'k \<Rightarrow> bool) \<Rightarrow> ('s \<Rightarrow> 'k \<Rightarrow> bool) \<Rightarrow> 's list \<Rightarrow> 'k \<Rightarrow> bool" where
  "live_after created removed steps k =
     (\<exists>i \<in> {..<length steps}. created (steps ! i) k
         \<and> (\<forall>j \<in> {i<..<length steps}. \<not> removed (steps ! j) k))"

text \<open>The root process: the process of the first \<open>CREATE_PROCESS\<close> event of the script.\<close>

definition delivers_create_process :: "os_step \<Rightarrow> bool" where
  "delivers_create_process step =
     (case delivered step of None \<Rightarrow> False
      | Some e \<Rightarrow> is_create_process (dwDebugEventCode e))"

definition root_pid :: "os_step list \<Rightarrow> DWORD option" where
  "root_pid script =
     (case find delivers_create_process script of
        None \<Rightarrow> None
      | Some step \<Rightarrow> map_option dwProcessId (delivered step))"

text \<open>
  The exit code a step's \<open>EXIT_PROCESS\<close> event carries, and the exit code of the root
  process: the one carried by the first \<open>EXIT_PROCESS\<close> event of the root process.
\<close>

definition exit_code_of :: "os_step \<Rightarrow> int option" where
  "exit_code_of step =
     (case delivered step of None \<Rightarrow> None
      | Some e \<Rightarrow> (case dwDebugEventCode e of
                     EXIT_PROCESS_DEBUG_EVENT dwExitCode \<Rightarrow> Some (sint dwExitCode)
                   | _ \<Rightarrow> None))"

definition root_exit_code :: "os_step list \<Rightarrow> int option" where
  "root_exit_code script =
     (case root_pid script of
        None \<Rightarrow> None
      | Some r \<Rightarrow>
          (case find (\<lambda>step. exits_process step r) script of
             None \<Rightarrow> None
           | Some step \<Rightarrow> exit_code_of step))"

text \<open>
  The exit code, if any, in the \<open>ProcessStatus\<close> of a step: the code of an
  \<open>EXIT_PROCESS\<close> event, \<open>EXCEPTION_BREAKPOINT\<close> for an exception classified
  \<open>InvalidBreakPoint\<close> unless the debugger stops on asserts, and the exception code for
  one classified \<open>CppError\<close> if the debugger continues after C++ exceptions.
\<close>

definition status_exit_code :: "Debugger \<Rightarrow> os_step \<Rightarrow> int option" where
  "status_exit_code d step =
     (case delivered step of None \<Rightarrow> None
      | Some e \<Rightarrow>
          (case dwDebugEventCode e of
             EXIT_PROCESS_DEBUG_EVENT dwExitCode \<Rightarrow> Some (sint dwExitCode)
           | EXCEPTION_DEBUG_EVENT ExceptionCode dwFirstChance \<Rightarrow>
               (case handler step of
                  Handler_returns InvalidBreakPoint \<Rightarrow>
                    if stopOnAssert d then None else Some (sint EXCEPTION_BREAKPOINT)
                | Handler_returns CppError \<Rightarrow>
                    if continueAfterCppException d then Some (sint ExceptionCode) else None
                | _ \<Rightarrow> None)
           | _ \<Rightarrow> None))"

definition about_process :: "os_step \<Rightarrow> DWORD \<Rightarrow> bool" where
  "about_process step pid =
     (case delivered step of None \<Rightarrow> False | Some e \<Rightarrow> dwProcessId e = pid)"

text \<open>
  The first exit code that the status of a step about the root process carries.
\<close>

definition first_root_status_code :: "Debugger \<Rightarrow> os_step list \<Rightarrow> int option" where
  "first_root_status_code d script =
     (case root_pid script of
        None \<Rightarrow> None
      | Some r \<Rightarrow>
          (case find (\<lambda>step. about_process step r \<and> status_exit_code d step \<noteq> None) script of
             None \<Rightarrow> None
           | Some step \<Rightarrow> status_exit_code d step))"

text \<open>A step is a swallowed exception when it is an exception whose status has an exit code.\<close>

definition swallowed_exception :: "Debugger \<Rightarrow> os_step \<Rightarrow> bool" where
  "swallowed_exception d step =
     (case delivered step of None \<Rightarrow> False
      | Some e \<Rightarrow> is_exception (dwDebugEventCode e) \<and> status_exit_code d step \<noteq> None)"

text \<open>
  The situations in which the specification says an invariant is violated: a
  \<open>CREATE_PROCESS\<close> event whose process id is already in the process table, a
  \<open>CREATE_THREAD\<close> or \<open>CREATE_PROCESS\<close> event whose thread id is already in the thread
  table, an \<open>EXIT_PROCESS\<close> event whose process id or an \<open>EXIT_THREAD\<close> event whose
  thread id is not in its table, and an exception classified as none of the five kinds.
\<close>

definition listed_violation :: "Debugger \<Rightarrow> DEBUG_EVENT \<Rightarrow> handler_outcome \<Rightarrow> bool" where
  "listed_violation d e debugEventsHandler =
     ((is_create_process (dwDebugEventCode e) \<and> processHandles d (dwProcessId e) \<noteq> None)
      \<or> ((is_create_thread (dwDebugEventCode e) \<or> is_create_process (dwDebugEventCode e))
            \<and> threadHandles d (dwThreadId e) \<noteq> None)
      \<or> (is_exit_process (dwDebugEventCode e) \<and> processHandles d (dwProcessId e) = None)
      \<or> (is_exit_thread (dwDebugEventCode e) \<and> threadHandles d (dwThreadId e) = None)
      \<or> (is_exception (dwDebugEventCode e)
            \<and> debugEventsHandler = Handler_returns NoEnumerator))"

text \<open>
  An invariant-violation error is one the debugger raises itself because a table or a
  classification is not as it must be: a \<open>THROW\<close>, or the \<open>std::out_of_range\<close> of the
  lookup of a handle (the specification's invariant that the ids of a non-creational
  event are in the tables). A failed call of the operating system and an exception
  raised by the handler are not.
\<close>

fun invariant_violation :: "error \<Rightarrow> bool" where
  "invariant_violation (CppCoverageException message) = True"
| "invariant_violation std_out_of_range = True"
| "invariant_violation (LastError message) = False"
| "invariant_violation HandlerRaised = False"

text \<open>The events that make the debugger call the handler.\<close>

fun notifies_handler :: "dwDebugEventCode_and_u \<Rightarrow> bool" where
  "notifies_handler (CREATE_PROCESS_DEBUG_EVENT hFile hProcess hThread) = True"
| "notifies_handler (EXIT_PROCESS_DEBUG_EVENT dwExitCode) = True"
| "notifies_handler (LOAD_DLL_DEBUG_EVENT hFile) = True"
| "notifies_handler UNLOAD_DLL_DEBUG_EVENT = True"
| "notifies_handler (EXCEPTION_DEBUG_EVENT ExceptionCode dwFirstChance) = True"
| "notifies_handler _ = False"

section \<open>Concrete inputs\<close>

text \<open>
  A manager with two diff filters, the first selecting line 10 and the second line 20 of
  \<open>x.cpp\<close>, and one with no diff filter; paths are numbers here, and the two filters
  report the unmatched paths 30, 10 and 20, 30.
\<close>

definition two_filters :: "nat CoverageFilterManager" where
  "two_filters =
     \<lparr> wildcardCoverageFilter =
         \<lparr> Wildcard_IsModuleSelected = (\<lambda>f. True),
           Wildcard_IsSourceFileSelected = (\<lambda>f. f = ''x.cpp'') \<rparr>,
       unifiedDiffCoverageFilters =
         [\<lparr> Diff_IsSourceFileSelected = (\<lambda>f. f = ''x.cpp''),
            Diff_IsLineSelected = (\<lambda>f n. f = ''x.cpp'' \<and> n = 10),
            Diff_GetUnmatchedPaths = [30, 10] \<rparr>,
          \<lparr> Diff_IsSourceFileSelected = (\<lambda>f. f = ''y.cpp''),
            Diff_IsLineSelected = (\<lambda>f n. f = ''x.cpp'' \<and> n = 20),
            Diff_GetUnmatchedPaths = [20, 30] \<rparr>] \<rparr>"

definition no_filters :: "nat CoverageFilterManager" where
  "no_filters =
     \<lparr> wildcardCoverageFilter =
         \<lparr> Wildcard_IsModuleSelected = (\<lambda>f. True),
           Wildcard_IsSourceFileSelected = (\<lambda>f. f = ''x.cpp'') \<rparr>,
       unifiedDiffCoverageFilters = [] \<rparr>"

definition example_tools :: Tools where
  "example_tools = \<lparr> GetSeparatorLine = ''----'', VerboseOption = ''verbose'' \<rparr>"

text \<open>
  A step that delivers an event which is then resumed without failure and during which
  the handler, if called, returns; and the same for an exception, with the classification
  the handler returns.
\<close>

definition event_step :: "dwDebugEventCode_and_u \<Rightarrow> DWORD \<Rightarrow> DWORD \<Rightarrow> os_step" where
  "event_step code pid tid =
     \<lparr> delivered = Some \<lparr> dwDebugEventCode = code, dwProcessId = pid, dwThreadId = tid \<rparr>,
       handler = Handler_returns BreakPoint, continue_ok = True \<rparr>"

definition exception_step :: "DWORD \<Rightarrow> bool \<Rightarrow> ExceptionType \<Rightarrow> DWORD \<Rightarrow> DWORD \<Rightarrow> os_step" where
  "exception_step ExceptionCode dwFirstChance exceptionType pid tid =
     \<lparr> delivered = Some \<lparr> dwDebugEventCode = EXCEPTION_DEBUG_EVENT ExceptionCode dwFirstChance,
                          dwProcessId = pid, dwThreadId = tid \<rparr>,
       handler = Handler_returns exceptionType, continue_ok = True \<rparr>"

definition debug_event :: "dwDebugEventCode_and_u \<Rightarrow> DWORD \<Rightarrow> DWORD \<Rightarrow> DEBUG_EVENT" where
  "debug_event code pid tid = \<lparr> dwDebugEventCode = code, dwProcessId = pid, dwThreadId = tid \<rparr>"

section \<open>Properties of the filter manager\<close>

subsection \<open>The nearest executable line\<close>

lemma lower_bound_le: "lower_bound xs k \<le> length xs"
  by (induction xs) auto

lemma lower_bound_zero: "sorted xs \<Longrightarrow> (lower_bound xs k = 0) = (\<forall>s \<in> set xs. \<not> s < k)"
  by (induction xs) auto

lemma lower_bound_hit:
  "sorted xs \<Longrightarrow> (lower_bound xs k \<noteq> length xs \<and> xs ! lower_bound xs k = k) = (k \<in> set xs)"
  by (induction xs) auto

lemma lower_bound_prev:
  "sorted xs \<Longrightarrow> lower_bound xs k \<noteq> 0 \<Longrightarrow>
     xs ! (lower_bound xs k - 1) = Max {s \<in> set xs. s < k}"
proof (induction xs)
  case Nil then show ?case by simp
next
  case (Cons x xs)
  from Cons.prems have xk: "x < k" by (auto split: if_splits)
  from Cons.prems have srt: "sorted xs" and low: "\<forall>s \<in> set xs. x \<le> s" by auto
  have split: "{s \<in> set (x # xs). s < k} = insert x {s \<in> set xs. s < k}"
    using xk by auto
  show ?case
  proof (cases "lower_bound xs k = 0")
    case True
    then have "{s \<in> set xs. s < k} = {}"
      using lower_bound_zero [OF srt, of k] by auto
    with True xk split show ?thesis by simp
  next
    case False
    then have ih: "xs ! (lower_bound xs k - 1) = Max {s \<in> set xs. s < k}"
      using Cons.IH srt by simp
    from False have ne: "{s \<in> set xs. s < k} \<noteq> {}"
      using lower_bound_zero [OF srt, of k] by auto
    have fin: "finite {s \<in> set xs. s < k}" by simp
    have "Max {s \<in> set xs. s < k} \<in> {s \<in> set xs. s < k}"
      using Max_in [OF fin ne] .
    then have "x \<le> Max {s \<in> set xs. s < k}" using low by auto
    then have "Max (insert x {s \<in> set xs. s < k}) = Max {s \<in> set xs. s < k}"
      using fin ne by (simp add: max_absorb2)
    with ih split xk False show ?thesis by (cases "lower_bound xs k") auto
  qed
qed

lemma GetExecutableLineOrPreviousOne_resolves:
  assumes "finite S"
  shows "GetExecutableLineOrPreviousOne n S =
     (if n \<in> S then Some n
      else if \<exists>s \<in> S. s < n then Some (Max {s \<in> S. s < n})
      else None)"
proof -
  let ?xs = "sorted_list_of_set S"
  have srt: "sorted ?xs" by simp
  have st: "set ?xs = S" using assms by simp
  show ?thesis
    unfolding GetExecutableLineOrPreviousOne_def Let_def
    using lower_bound_hit [OF srt, of n] lower_bound_zero [OF srt, of n]
      lower_bound_prev [OF srt, of n]
    by (auto simp: st)
qed

lemma AnyOfOrTrueIfEmpty_nonempty:
  "container \<noteq> [] \<Longrightarrow> AnyOfOrTrueIfEmpty container fct = (\<exists>x \<in> set container. fct x)"
  by (simp add: AnyOfOrTrueIfEmpty_def list_ex_iff)

text \<open>
  C1. On a finite set of executable lines \<open>IsLineSelected\<close> is the reference
  definition: true without diff filters; otherwise the line resolves to itself if it is
  executable, else to the largest executable line strictly below it, else the answer is
  false; and a resolved line is selected iff some diff filter accepts it.
\<close>

theorem IsLineSelected_refines_reference:
  "finite S \<Longrightarrow> IsLineSelected m filename lineNumber S
       = IsLineSelected_reference m filename lineNumber S"
  by (simp add: IsLineSelected_def IsLineSelected_reference_def
        GetExecutableLineOrPreviousOne_resolves AnyOfOrTrueIfEmpty_nonempty)

text \<open>
  With the two filters and the executable lines 10 and 20, line 25 resolves to 20 and is
  selected, and line 9 has no executable line below it and is not.
\<close>

theorem IsLineSelected_refines_reference_witness:
  "finite {10, 20::int} \<and> IsLineSelected two_filters ''x.cpp'' 25 {10, 20}
     \<and> IsLineSelected_reference two_filters ''x.cpp'' 25 {10, 20}
     \<and> \<not> IsLineSelected two_filters ''x.cpp'' 9 {10, 20}
     \<and> \<not> IsLineSelected_reference two_filters ''x.cpp'' 9 {10, 20}"
proof -
  have fin: "finite {10, 20::int}" by simp
  have a: "IsLineSelected two_filters ''x.cpp'' 25 {10, 20}"
    by (simp add: IsLineSelected_def two_filters_def GetExecutableLineOrPreviousOne_def
          AnyOfOrTrueIfEmpty_def)
  have b: "\<not> IsLineSelected two_filters ''x.cpp'' 9 {10, 20}"
    by (simp add: IsLineSelected_def two_filters_def GetExecutableLineOrPreviousOne_def
          AnyOfOrTrueIfEmpty_def)
  show ?thesis
    using a b fin IsLineSelected_refines_reference [OF fin, of two_filters "''x.cpp''" 25]
      IsLineSelected_refines_reference [OF fin, of two_filters "''x.cpp''" 9]
    by simp
qed

subsection \<open>Source files\<close>

text \<open>
  C5. \<open>IsSourceFileSelected\<close> is false whenever the wildcard filter rejects the file;
  when the wildcard filter accepts it, the result is true iff the sequence of diff filters
  is empty or at least one diff filter accepts the file; with no diff filter
  \<open>IsSourceFileSelected\<close> is the wildcard filter's predicate.
\<close>

theorem IsSourceFileSelected_any_or_true_if_empty:
  "(\<not> Wildcard_IsSourceFileSelected (wildcardCoverageFilter m) filename
       \<longrightarrow> \<not> IsSourceFileSelected m filename)
   \<and> (Wildcard_IsSourceFileSelected (wildcardCoverageFilter m) filename
       \<longrightarrow> IsSourceFileSelected m filename
           = (unifiedDiffCoverageFilters m = []
              \<or> (\<exists>filter \<in> set (unifiedDiffCoverageFilters m).
                    Diff_IsSourceFileSelected filter filename)))
   \<and> (unifiedDiffCoverageFilters m = []
       \<longrightarrow> IsSourceFileSelected m = Wildcard_IsSourceFileSelected (wildcardCoverageFilter m))"
  by (auto simp: IsSourceFileSelected_def AnyOfOrTrueIfEmpty_def list_ex_iff fun_eq_iff)

text \<open>
  The wildcard filter of the examples accepts \<open>x.cpp\<close> only: \<open>z.cpp\<close> is rejected,
  \<open>x.cpp\<close> is accepted by the first of the two diff filters, and without diff filters
  the manager answers as its wildcard filter does.
\<close>

theorem IsSourceFileSelected_any_or_true_if_empty_witness:
  "\<not> Wildcard_IsSourceFileSelected (wildcardCoverageFilter two_filters) ''z.cpp''
   \<and> \<not> IsSourceFileSelected two_filters ''z.cpp''
   \<and> Wildcard_IsSourceFileSelected (wildcardCoverageFilter two_filters) ''x.cpp''
   \<and> IsSourceFileSelected two_filters ''x.cpp''
   \<and> unifiedDiffCoverageFilters no_filters = []
   \<and> IsSourceFileSelected no_filters = Wildcard_IsSourceFileSelected (wildcardCoverageFilter no_filters)"
  using IsSourceFileSelected_any_or_true_if_empty [of two_filters "''z.cpp''"]
    IsSourceFileSelected_any_or_true_if_empty [of two_filters "''x.cpp''"]
    IsSourceFileSelected_any_or_true_if_empty [of no_filters "''x.cpp''"]
  by (simp add: two_filters_def no_filters_def)

subsection \<open>The warning message\<close>

lemma unmatchPaths_loop_lines:
  "unmatchPaths_loop wstring maxUnmatchPaths paths i messageLines =
     messageLines
     @ map (path_line wstring) (take (maxUnmatchPaths - i) paths)
     @ (if length paths > maxUnmatchPaths - i then [ellipsis_line] else [])"
proof (induction paths arbitrary: i messageLines)
  case Nil
  then show ?case by simp
next
  case (Cons path rest)
  show ?case
  proof (cases "i \<ge> maxUnmatchPaths")
    case True
    then show ?thesis by (simp add: ellipsis_line_def)
  next
    case False
    then have "maxUnmatchPaths - i = Suc (maxUnmatchPaths - Suc i)" by simp
    with False Cons.IH [of "Suc i"] show ?thesis
      by (simp add: path_line_def)
  qed
qed

lemma ComputeWarningMessageLines_paths_lines:
  assumes "finite unmatchPaths"
  shows "ComputeWarningMessageLines_paths tools wstring unmatchPaths maxUnmatchPaths =
     (if card unmatchPaths = 0 then []
      else warning_header tools (card unmatchPaths)
           @ map (path_line wstring)
               (take (min (card unmatchPaths) maxUnmatchPaths) (sorted_list_of_set unmatchPaths))
           @ (if card unmatchPaths > maxUnmatchPaths then [ellipsis_line] else []))"
proof -
  have len: "length (sorted_list_of_set unmatchPaths) = card unmatchPaths" by simp
  have tk: "take (min (card unmatchPaths) maxUnmatchPaths) (sorted_list_of_set unmatchPaths)
      = take maxUnmatchPaths (sorted_list_of_set unmatchPaths)"
    using len by (metis min.commute take_all_iff take_take min.cobounded1 le_refl)
  show ?thesis
    using assms
    by (simp add: ComputeWarningMessageLines_paths_def unmatchPaths_loop_lines
        warning_header_def tk)
qed

text \<open>
  The public operation gathers the unmatched paths of every diff filter into one set and
  passes that set to the private one.
\<close>

lemma collected_paths:
  "fold (\<lambda>filter unmatchPaths. unmatchPaths \<union> set (Diff_GetUnmatchedPaths filter)) filters acc
     = acc \<union> (\<Union>filter \<in> set filters. set (Diff_GetUnmatchedPaths filter))"
  by (induction filters arbitrary: acc) auto

lemma ComputeWarningMessageLines_collects:
  "ComputeWarningMessageLines tools wstring m maxUnmatchPaths =
     ComputeWarningMessageLines_paths tools wstring
       (\<Union>filter \<in> set (unifiedDiffCoverageFilters m). set (Diff_GetUnmatchedPaths filter))
       maxUnmatchPaths"
  by (simp add: ComputeWarningMessageLines_def collected_paths)

text \<open>
  C6. \<open>ComputeWarningMessageLines\<close>, with \<open>N\<close> the number of distinct paths that the
  diff filters of the manager report as unmatched, and the private operation of that
  name, with \<open>N\<close> the size of the set it is given, return for any \<open>maxUnmatchPaths\<close>: no
  line when \<open>N = 0\<close>; otherwise the four header lines, the second holding \<open>N\<close>, then the
  lines of the first \<open>min N maxUnmatchPaths\<close> paths in ascending order, then the
  ellipsis line iff \<open>N > maxUnmatchPaths\<close>.
\<close>

theorem ComputeWarningMessageLines_format:
  "ComputeWarningMessageLines tools wstring m maxUnmatchPaths =
     (if card (\<Union>filter \<in> set (unifiedDiffCoverageFilters m).
                 set (Diff_GetUnmatchedPaths filter)) = 0 then []
      else warning_header tools
             (card (\<Union>filter \<in> set (unifiedDiffCoverageFilters m).
                      set (Diff_GetUnmatchedPaths filter)))
           @ map (path_line wstring)
               (take (min (card (\<Union>filter \<in> set (unifiedDiffCoverageFilters m).
                                   set (Diff_GetUnmatchedPaths filter)))
                          maxUnmatchPaths)
                  (sorted_list_of_set
                     (\<Union>filter \<in> set (unifiedDiffCoverageFilters m).
                         set (Diff_GetUnmatchedPaths filter))))
           @ (if card (\<Union>filter \<in> set (unifiedDiffCoverageFilters m).
                         set (Diff_GetUnmatchedPaths filter)) > maxUnmatchPaths
              then [ellipsis_line] else []))
   \<and> (finite unmatchPaths \<longrightarrow>
       ComputeWarningMessageLines_paths tools wstring unmatchPaths maxUnmatchPaths =
         (if card unmatchPaths = 0 then []
          else warning_header tools (card unmatchPaths)
               @ map (path_line wstring)
                   (take (min (card unmatchPaths) maxUnmatchPaths)
                      (sorted_list_of_set unmatchPaths))
               @ (if card unmatchPaths > maxUnmatchPaths then [ellipsis_line] else [])))"
proof -
  have "finite (\<Union>filter \<in> set (unifiedDiffCoverageFilters m).
                  set (Diff_GetUnmatchedPaths filter))"
    by simp
  then show ?thesis
    unfolding ComputeWarningMessageLines_collects
    using ComputeWarningMessageLines_paths_lines by blast
qed

text \<open>
  The two filters report three distinct paths, of which at most two are shown; the
  private operation gives the same lines for the set of these paths.
\<close>

theorem ComputeWarningMessageLines_format_witness:
  "ComputeWarningMessageLines example_tools to_wstring two_filters 2 =
       [''----'',
        ''You have 3 path(s) inside unified diff file(s) that were ignored'',
        ''because they did not match any path from pdb files.'',
        ''To see all files use --verbose'',
        CHR 0x09 # ''- 10'', CHR 0x09 # ''- 20'', CHR 0x09 # ''...'']
   \<and> finite {10, 20, 30::nat}
   \<and> ComputeWarningMessageLines_paths example_tools to_wstring {10, 20, 30} 2 =
       [''----'',
        ''You have 3 path(s) inside unified diff file(s) that were ignored'',
        ''because they did not match any path from pdb files.'',
        ''To see all files use --verbose'',
        CHR 0x09 # ''- 10'', CHR 0x09 # ''- 20'', CHR 0x09 # ''...'']"
proof -
  have reported: "(\<Union>filter \<in> set (unifiedDiffCoverageFilters two_filters).
      set (Diff_GetUnmatchedPaths filter)) = {10, 20, 30}"
    by (auto simp: two_filters_def)
  have fin: "finite {10, 20, 30::nat}" by simp
  have card: "card {10, 20, 30::nat} = 3" by simp
  have srt: "sorted_list_of_set {10, 20, 30::nat} = [10, 20, 30]" by simp
  have count: "to_wstring 3 = ''3''" by code_simp
  have ten: "to_wstring 10 = ''10''" by code_simp
  have twenty: "to_wstring 20 = ''20''" by code_simp
  have lines: "(if card {10, 20, 30::nat} = 0 then []
      else warning_header example_tools (card {10, 20, 30::nat})
           @ map (path_line to_wstring)
               (take (min (card {10, 20, 30::nat}) 2) (sorted_list_of_set {10, 20, 30::nat}))
           @ (if card {10, 20, 30::nat} > 2 then [ellipsis_line] else []))
     = [''----'',
        ''You have 3 path(s) inside unified diff file(s) that were ignored'',
        ''because they did not match any path from pdb files.'',
        ''To see all files use --verbose'',
        CHR 0x09 # ''- 10'', CHR 0x09 # ''- 20'', CHR 0x09 # ''...'']"
    unfolding card srt
    by (simp add: count ten twenty warning_header_def path_line_def ellipsis_line_def
        example_tools_def)
  from ComputeWarningMessageLines_format
         [of example_tools to_wstring two_filters 2 "{10, 20, 30}", unfolded reported lines]
       fin
  show ?thesis by blast
qed

section \<open>Properties of the debugger\<close>

subsection \<open>What handling one event does\<close>

lemmas handler_defs = HandleDebugEvent_def HandleNotCreationalEvent_def
  OnCreateProcess_def OnCreateThread_def OnExitProcess_def OnExitThread_def GetProcessHandle_def
  GetThreadHandle_def OnException_def ProcessStatus_default_def Let_def

lemmas handler_splits = dwDebugEventCode_and_u.splits sum.splits option.splits if_splits
  handler_outcome.splits ExceptionType.splits prod.splits

lemma HandleDebugEvent_flags:
  "HandleDebugEvent d e x = Inr (st, d', calls) \<Longrightarrow>
     coverChildren d' = coverChildren d \<and> continueAfterCppException d' = continueAfterCppException d
     \<and> stopOnAssert d' = stopOnAssert d \<and> dumpOnCrash d' = dumpOnCrash d
     \<and> dumpDirectory d' = dumpDirectory d"
  by (auto simp: handler_defs split: handler_splits)

lemma HandleDebugEvent_processHandles:
  "HandleDebugEvent d e x = Inr (st, d', calls) \<Longrightarrow>
     dom (processHandles d') =
       (if is_create_process (dwDebugEventCode e) then insert (dwProcessId e) (dom (processHandles d))
        else if is_exit_process (dwDebugEventCode e) then dom (processHandles d) - {dwProcessId e}
        else dom (processHandles d))"
  by (auto simp: handler_defs split: handler_splits)

lemma HandleDebugEvent_threadHandles:
  "HandleDebugEvent d e x = Inr (st, d', calls) \<Longrightarrow>
     dom (threadHandles d') =
       (if is_create_process (dwDebugEventCode e) \<or> is_create_thread (dwDebugEventCode e)
        then insert (dwThreadId e) (dom (threadHandles d))
        else if is_exit_process (dwDebugEventCode e) \<or> is_exit_thread (dwDebugEventCode e)
        then dom (threadHandles d) - {dwThreadId e}
        else dom (threadHandles d))"
  by (auto simp: handler_defs split: handler_splits)

lemma HandleDebugEvent_rootProcessId:
  "HandleDebugEvent d e x = Inr (st, d', calls) \<Longrightarrow>
     rootProcessId d' =
       (if rootProcessId d = None \<and> processHandles d = Map.empty
           \<and> is_create_process (dwDebugEventCode e)
        then Some (dwProcessId e) else rootProcessId d)"
  by (auto simp: handler_defs split: handler_splits)

lemma HandleDebugEvent_exitCode:
  "HandleDebugEvent d e x = Inr (st, d', calls) \<Longrightarrow>
     exitCode st = status_exit_code d \<lparr> delivered = Some e, handler = x, continue_ok = b \<rparr>"
  by (auto simp: handler_defs status_exit_code_def split: handler_splits)

lemma HandleDebugEvent_present:
  "HandleDebugEvent d e x = Inr (st, d', calls) \<Longrightarrow>
     \<not> is_create_process (dwDebugEventCode e) \<Longrightarrow> \<not> is_create_thread (dwDebugEventCode e) \<Longrightarrow>
     dwProcessId e \<in> dom (processHandles d) \<and> dwThreadId e \<in> dom (threadHandles d)"
  by (auto simp: handler_defs split: handler_splits)

lemma Debug_iteration_Inr:
  assumes "Debug_iteration step (latch, d, calls) = Inr (latch', d', calls')"
  shows "\<exists>e st dump. delivered step = Some e \<and> continue_ok step
           \<and> HandleDebugEvent d e (handler step) = Inr (st, d', dump)
           \<and> latch' = (if exitCode st \<noteq> None \<and> rootProcessId d' = Some (dwProcessId e)
                           \<and> latch = None then exitCode st else latch)"
  using assms by (auto simp: Let_def split: option.splits sum.splits if_splits)

lemma Debug_after_snoc:
  "Debug_after s (steps @ [step]) =
     (case Debug_after s steps of
        None \<Rightarrow> None
      | Some s1 \<Rightarrow>
          if Debug_continues s1 then
            (case Debug_iteration step s1 of Inl e \<Rightarrow> None | Inr s2 \<Rightarrow> Some s2)
          else None)"
  by (induction steps arbitrary: s) (auto split: sum.splits option.splits)

lemma live_after_Nil: "live_after created removed [] k = False"
  by (simp add: live_after_def)

lemma live_after_snoc:
  "live_after created removed (steps @ [step]) k =
     (created step k \<or> (live_after created removed steps k \<and> \<not> removed step k))"
proof -
  let ?n = "length steps"
  have idx: "{..<Suc ?n} = insert ?n {..<?n}" by auto
  have rng: "\<And>i. i < ?n \<Longrightarrow> {i<..<Suc ?n} = insert ?n {i<..<?n}" by auto
  show ?thesis
    unfolding live_after_def
    by (auto simp: idx rng nth_append)
qed

lemma Debug_after_snoc_Some:
  assumes "Debug_after s0 (steps @ [step]) = Some (latch', d', calls')"
  obtains latch d calls e st dump where
    "Debug_after s0 steps = Some (latch, d, calls)"
    "Debug_continues (latch, d, calls)"
    "delivered step = Some e" "continue_ok step"
    "HandleDebugEvent d e (handler step) = Inr (st, d', dump)"
    "latch' = (if exitCode st \<noteq> None \<and> rootProcessId d' = Some (dwProcessId e)
                  \<and> latch = None then exitCode st else latch)"
proof -
  from assms obtain s1 where s1: "Debug_after s0 steps = Some s1" "Debug_continues s1"
      "Debug_iteration step s1 = Inr (latch', d', calls')"
    by (auto simp: Debug_after_snoc split: option.splits if_splits sum.splits)
  obtain latch d calls where s1_eq: "s1 = (latch, d, calls)" by (cases s1) auto
  from Debug_iteration_Inr [OF s1(3) [unfolded s1_eq]] s1 s1_eq that show thesis by blast
qed

lemma status_exit_code_flags:
  "stopOnAssert d1 = stopOnAssert d \<Longrightarrow> continueAfterCppException d1 = continueAfterCppException d
     \<Longrightarrow> status_exit_code d1 step = status_exit_code d step"
  by (auto simp: status_exit_code_def
      split: option.splits dwDebugEventCode_and_u.splits ExceptionType.splits)

lemma status_exit_code_creational:
  "delivered step = Some e \<Longrightarrow>
     is_create_process (dwDebugEventCode e) \<or> is_create_thread (dwDebugEventCode e) \<Longrightarrow>
     status_exit_code d step = None"
  by (cases "dwDebugEventCode e") (auto simp: status_exit_code_def)

lemma find_append_cases:
  "find P (xs @ ys) = (case find P xs of None \<Rightarrow> find P ys | Some x \<Rightarrow> Some x)"
  by (induction xs) auto

lemma find_Some_holds: "find P xs = Some x \<Longrightarrow> P x"
  by (induction xs) (auto split: if_splits)

lemma find_Some_member: "find P xs = Some x \<Longrightarrow> x \<in> set xs"
  by (induction xs) (auto split: if_splits)

lemma root_pid_snoc:
  "root_pid (steps @ [step]) =
     (case root_pid steps of
        Some r \<Rightarrow> Some r
      | None \<Rightarrow> if delivers_create_process step
                then map_option dwProcessId (delivered step) else None)"
  by (auto simp: root_pid_def find_append_cases delivers_create_process_def
      split: option.splits dest: find_Some_holds)

lemma root_pid_append:
  "root_pid steps = Some r \<Longrightarrow> root_pid (steps @ rest) = Some r"
  by (auto simp: root_pid_def find_append_cases split: option.splits)

lemma first_root_status_code_append:
  "first_root_status_code d steps = Some c \<Longrightarrow> first_root_status_code d (steps @ rest) = Some c"
  by (auto simp: first_root_status_code_def find_append_cases root_pid_append split: option.splits)

lemma Debug_after_invariants:
  assumes "Debug_after (Debug_start d) steps = Some (latch, d', calls)"
  shows "stopOnAssert d' = stopOnAssert d
       \<and> continueAfterCppException d' = continueAfterCppException d
       \<and> rootProcessId d' = root_pid steps
       \<and> (rootProcessId d' = None \<longrightarrow>
            processHandles d' = Map.empty \<and> (\<forall>s \<in> set steps. status_exit_code d s = None))
       \<and> latch = first_root_status_code d steps"
  using assms
proof (induction steps arbitrary: latch d' calls rule: rev_induct)
  case Nil
  then show ?case
    by (auto simp: Debug_start_def root_pid_def first_root_status_code_def)
next
  case (snoc step steps)
  from snoc.prems obtain latch1 d1 calls1 e st dump where
    before: "Debug_after (Debug_start d) steps = Some (latch1, d1, calls1)"
    and ev: "delivered step = Some e"
    and handled: "HandleDebugEvent d1 e (handler step) = Inr (st, d', dump)"
    and latch: "latch = (if exitCode st \<noteq> None \<and> rootProcessId d' = Some (dwProcessId e)
                  \<and> latch1 = None then exitCode st else latch1)"
    by (rule Debug_after_snoc_Some)
  from snoc.IH [OF before] have
    f1: "stopOnAssert d1 = stopOnAssert d"
      "continueAfterCppException d1 = continueAfterCppException d"
    and r1: "rootProcessId d1 = root_pid steps"
    and fresh1: "rootProcessId d1 = None \<Longrightarrow>
        processHandles d1 = Map.empty \<and> (\<forall>s \<in> set steps. status_exit_code d s = None)"
    and l1: "latch1 = first_root_status_code d steps"
    by auto
  have flags: "stopOnAssert d' = stopOnAssert d"
      "continueAfterCppException d' = continueAfterCppException d"
    using HandleDebugEvent_flags [OF handled] f1 by auto
  have code: "exitCode st = status_exit_code d step"
    using HandleDebugEvent_exitCode [OF handled, of "continue_ok step"] ev
      status_exit_code_flags [OF f1, of step]
    by (cases step) simp
  have root': "rootProcessId d' =
       (if rootProcessId d1 = None \<and> processHandles d1 = Map.empty
           \<and> is_create_process (dwDebugEventCode e)
        then Some (dwProcessId e) else rootProcessId d1)"
    by (rule HandleDebugEvent_rootProcessId [OF handled])
  have dcp: "delivers_create_process step = is_create_process (dwDebugEventCode e)"
    using ev by (simp add: delivers_create_process_def)
  have about: "\<And>r. about_process step r = (dwProcessId e = r)"
    using ev by (simp add: about_process_def)
  show ?case
  proof (cases "rootProcessId d1")
    case (Some r)
    then have root_same: "rootProcessId d' = Some r" using root' by simp
    have rps: "root_pid steps = Some r" using r1 Some by simp
    have rp: "root_pid (steps @ [step]) = Some r"
      using rps by (simp add: root_pid_snoc)
    have "latch = first_root_status_code d (steps @ [step])"
      using latch l1 code rps rp root_same about
      by (auto simp: first_root_status_code_def find_append_cases
          split: option.splits dest: find_Some_holds)
    with flags root_same rp show ?thesis by simp
  next
    case None
    with fresh1 have empty1: "processHandles d1 = Map.empty"
      and quiet: "\<forall>s \<in> set steps. status_exit_code d s = None" by auto
    have rps: "root_pid steps = None" using r1 None by simp
    have l1_none: "latch1 = None"
      using l1 rps by (simp add: first_root_status_code_def)
    have creational: "is_create_process (dwDebugEventCode e) \<or> is_create_thread (dwDebugEventCode e)"
      using HandleDebugEvent_present [OF handled] empty1 by auto
    have code_none: "status_exit_code d step = None"
      using status_exit_code_creational [OF ev creational] .
    have latch_none: "latch = None" using latch l1_none code code_none by simp
    have no_code: "\<forall>s \<in> set (steps @ [step]). status_exit_code d s = None"
      using quiet code_none by simp
    have frsc: "first_root_status_code d (steps @ [step]) = None"
    proof -
      have "find (\<lambda>s. about_process s r \<and> status_exit_code d s \<noteq> None) (steps @ [step]) = None"
        for r
        using no_code by (auto simp: find_None_iff)
      then show ?thesis
        by (simp add: first_root_status_code_def split: option.splits)
    qed
    have rp: "rootProcessId d' = root_pid (steps @ [step])"
      using root' None empty1 rps dcp ev by (simp add: root_pid_snoc)
    have "rootProcessId d' = None \<Longrightarrow> processHandles d' = Map.empty"
      using root' None empty1 HandleDebugEvent_processHandles [OF handled]
      by (auto split: if_splits)
    with flags rp latch_none frsc no_code show ?thesis by simp
  qed
qed

lemma Debug_loop_Returns:
  "Debug_loop s script = Returns c d' calls \<Longrightarrow>
     \<exists>n. Debug_after s (take n script) = Some (Some c, d', calls)"
proof (induction script arbitrary: s)
  case Nil
  then show ?case by (cases s) (auto split: if_splits)
next
  case (Cons step script)
  obtain latch d calls0 where s: "s = (latch, d, calls0)" by (cases s) auto
  show ?case
  proof (cases "Debug_continues s")
    case False
    with Cons.prems s have "Debug_after s (take 0 (step # script)) = Some (Some c, d', calls)"
      by auto
    then show ?thesis by blast
  next
    case True
    with Cons.prems s obtain s' where it: "Debug_iteration step s = Inr s'"
      and rest: "Debug_loop s' script = Returns c d' calls"
      by (auto split: sum.splits)
    from Cons.IH [OF rest] obtain n where
      "Debug_after s' (take n script) = Some (Some c, d', calls)" by blast
    with True it have "Debug_after s (take (Suc n) (step # script)) = Some (Some c, d', calls)"
      by simp
    then show ?thesis by blast
  qed
qed

lemma root_exit_code_eq_first_root_status_code:
  assumes "\<forall>step \<in> set script. \<forall>r. root_pid script = Some r \<longrightarrow> about_process step r
             \<longrightarrow> \<not> swallowed_exception d step"
  shows "root_exit_code script = first_root_status_code d script"
proof (cases "root_pid script")
  case None
  then show ?thesis by (simp add: root_exit_code_def first_root_status_code_def)
next
  case (Some r)
  have same: "(about_process step r \<and> status_exit_code d step \<noteq> None) = exits_process step r"
    if "step \<in> set script" for step
  proof -
    have "about_process step r \<Longrightarrow> \<not> swallowed_exception d step"
      using assms that Some by blast
    then show ?thesis
      by (auto simp: about_process_def swallowed_exception_def exits_process_def
            status_exit_code_def
          split: option.splits dwDebugEventCode_and_u.splits ExceptionType.splits if_splits)
  qed
  have finds: "find (\<lambda>step. about_process step r \<and> status_exit_code d step \<noteq> None) script
        = find (\<lambda>step. exits_process step r) script"
    using same by (intro find_cong) auto
  have codes: "exits_process step r \<Longrightarrow> status_exit_code d step = exit_code_of step" for step
    by (auto simp: exits_process_def status_exit_code_def exit_code_of_def
        split: option.splits dwDebugEventCode_and_u.splits)
  show ?thesis
    using Some finds codes
    by (auto simp: root_exit_code_def first_root_status_code_def split: option.splits
        dest: find_Some_holds)
qed

lemma OnException_fails_iff:
  "(OnException d e code firstChance debugEventsHandler = Inl err)
     = (debugEventsHandler = Handler_raises \<and> err = HandlerRaised
        \<or> debugEventsHandler = Handler_returns NoEnumerator
          \<and> err = CppCoverageException ''Invalid exception Type.'')"
proof (cases debugEventsHandler)
  case Handler_raises
  then show ?thesis by (auto simp: OnException_def)
next
  case (Handler_returns exceptionType)
  then show ?thesis by (cases exceptionType) (auto simp: OnException_def Let_def)
qed

lemma OnException_not_Inr:
  "OnException d e code firstChance Handler_raises \<noteq> Inr r"
  "OnException d e code firstChance (Handler_returns NoEnumerator) \<noteq> Inr r"
  by (simp_all add: OnException_def)

lemma HandleNotCreationalEvent_fails_iff:
  "processHandles d (dwProcessId e) = Some hProcess \<Longrightarrow>
   threadHandles d (dwThreadId e) = Some hThread \<Longrightarrow>
   (HandleNotCreationalEvent d e debugEventsHandler hProcess hThread (dwThreadId e) = Inl err)
     = (notifies_handler (dwDebugEventCode e) \<and> \<not> is_create_process (dwDebugEventCode e)
          \<and> debugEventsHandler = Handler_raises \<and> err = HandlerRaised
        \<or> is_exception (dwDebugEventCode e)
          \<and> debugEventsHandler = Handler_returns NoEnumerator
          \<and> err = CppCoverageException ''Invalid exception Type.'')"
  by (cases "dwDebugEventCode e")
     (auto simp: HandleNotCreationalEvent_def OnExitProcess_def OnExitThread_def
        OnException_fails_iff OnException_not_Inr split: sum.splits prod.splits)

lemmas run_defs = event_step_def exception_step_def Debugger_new_def Debug_def Debug_start_def
  handler_defs

lemmas spec_defs = root_exit_code_def root_pid_def delivers_create_process_def
  exits_process_def exit_code_of_def first_root_status_code_def about_process_def
  status_exit_code_def swallowed_exception_def

lemma HandleDebugEvent_changes:
  "HandleDebugEvent d e x = Inr (st, d', calls) \<Longrightarrow>
     \<exists>p t r. d' = d\<lparr>processHandles := p, threadHandles := t, rootProcessId := r\<rparr>"
proof -
  assume "HandleDebugEvent d e x = Inr (st, d', calls)"
  then have "d' = d\<lparr>processHandles := processHandles d', threadHandles := threadHandles d',
           rootProcessId := rootProcessId d'\<rparr>"
    by (auto simp: handler_defs split: handler_splits)
  then show ?thesis by blast
qed

lemma Debug_loop_changes:
  "Debug_loop (latch, d, calls) script = Returns c d' calls' \<Longrightarrow>
     \<exists>p t r. d' = d\<lparr>processHandles := p, threadHandles := t, rootProcessId := r\<rparr>"
proof (induction script arbitrary: latch d calls)
  case Nil
  then have "d' = d" by (auto split: if_splits)
  then have "d' = d\<lparr>processHandles := processHandles d, threadHandles := threadHandles d,
      rootProcessId := rootProcessId d\<rparr>" by simp
  then show ?case by blast
next
  case (Cons step script)
  show ?case
  proof (cases "Debug_continues (latch, d, calls)")
    case False
    with Cons.prems have "d' = d" by auto
    then have "d' = d\<lparr>processHandles := processHandles d, threadHandles := threadHandles d,
        rootProcessId := rootProcessId d\<rparr>" by simp
    then show ?thesis by blast
  next
    case True
    with Cons.prems obtain latch1 d1 calls1 where
      it: "Debug_iteration step (latch, d, calls) = Inr (latch1, d1, calls1)"
      and rest: "Debug_loop (latch1, d1, calls1) script = Returns c d' calls'"
      by (auto split: sum.splits)
    from Debug_iteration_Inr [OF it] HandleDebugEvent_changes obtain p1 t1 r1 where
      d1: "d1 = d\<lparr>processHandles := p1, threadHandles := t1, rootProcessId := r1\<rparr>"
      by blast
    from Cons.IH [OF rest] obtain p t r where
      "d' = d1\<lparr>processHandles := p, threadHandles := t, rootProcessId := r\<rparr>" by blast
    with d1 have "d' = d\<lparr>processHandles := p, threadHandles := t, rootProcessId := r\<rparr>"
      by simp
    then show ?thesis by blast
  qed
qed

subsection \<open>The handle tables\<close>

text \<open>
  C4. Once the loop has handled a sequence of steps without throwing, the process table
  holds exactly the process ids with a \<open>CREATE_PROCESS\<close> event that no later
  \<open>EXIT_PROCESS\<close> event of the same id follows, and the thread table holds exactly
  the thread ids created by a \<open>CREATE_THREAD\<close> or \<open>CREATE_PROCESS\<close> event that no
  later \<open>EXIT_THREAD\<close> or \<open>EXIT_PROCESS\<close> event of the same thread id follows.
\<close>

theorem tables_hold_the_live_ids:
  assumes "Debug_after (Debug_start d) steps = Some (latch, d', calls)"
  shows "(\<forall>pid. (pid \<in> dom (processHandles d')) = live_after creates_process exits_process steps pid)
       \<and> (\<forall>tid. (tid \<in> dom (threadHandles d')) = live_after creates_thread exits_thread steps tid)"
  using assms
proof (induction steps arbitrary: latch d' calls rule: rev_induct)
  case Nil
  then show ?case by (auto simp: Debug_start_def live_after_Nil)
next
  case (snoc step steps)
  from snoc.prems obtain latch1 d1 calls1 e st dump where
    before: "Debug_after (Debug_start d) steps = Some (latch1, d1, calls1)"
    and ev: "delivered step = Some e"
    and handled: "HandleDebugEvent d1 e (handler step) = Inr (st, d', dump)"
    by (rule Debug_after_snoc_Some)
  note ih = snoc.IH [OF before]
  have cp: "\<And>pid. creates_process step pid
      = (dwProcessId e = pid \<and> is_create_process (dwDebugEventCode e))"
    and xp: "\<And>pid. exits_process step pid
      = (dwProcessId e = pid \<and> is_exit_process (dwDebugEventCode e))"
    and ct: "\<And>tid. creates_thread step tid = (dwThreadId e = tid
      \<and> (is_create_thread (dwDebugEventCode e) \<or> is_create_process (dwDebugEventCode e)))"
    and xt: "\<And>tid. exits_thread step tid = (dwThreadId e = tid
      \<and> (is_exit_thread (dwDebugEventCode e) \<or> is_exit_process (dwDebugEventCode e)))"
    using ev by (simp_all add: creates_process_def exits_process_def creates_thread_def
        exits_thread_def)
  have procs: "\<And>pid. (pid \<in> dom (processHandles d'))
      = live_after creates_process exits_process (steps @ [step]) pid"
    using HandleDebugEvent_processHandles [OF handled] ih
    by (cases "dwDebugEventCode e") (auto simp: live_after_snoc cp xp)
  have threads: "\<And>tid. (tid \<in> dom (threadHandles d'))
      = live_after creates_thread exits_thread (steps @ [step]) tid"
    using HandleDebugEvent_threadHandles [OF handled] ih
    by (cases "dwDebugEventCode e") (auto simp: live_after_snoc ct xt)
  from procs threads show ?case by blast
qed

text \<open>
  Two processes are created, the second gets a further thread and then exits: the first
  process, its thread and the further thread remain.
\<close>

theorem tables_hold_the_live_ids_witness:
  "Debug_after (Debug_start (Debugger_new True False False False ''dumps''))
       [event_step (CREATE_PROCESS_DEBUG_EVENT 5 6 7) 100 1,
        event_step (CREATE_PROCESS_DEBUG_EVENT 8 9 10) 200 2,
        event_step (CREATE_THREAD_DEBUG_EVENT 11) 200 3,
        event_step (EXIT_PROCESS_DEBUG_EVENT 9) 200 2]
     = Some (None,
         (Debugger_new True False False False ''dumps'')
           \<lparr>processHandles := [100 \<mapsto> 6], threadHandles := [1 \<mapsto> 7, 3 \<mapsto> 11],
            rootProcessId := Some 100\<rparr>,
         [Process_Start DEBUG_PROCESS, ContinueDebugEvent 100 1 DBG_CONTINUE,
          ContinueDebugEvent 200 2 DBG_CONTINUE, ContinueDebugEvent 200 3 DBG_CONTINUE,
          ContinueDebugEvent 200 2 DBG_CONTINUE])
   \<and> (\<forall>pid. (pid \<in> dom [100 \<mapsto> (6::HANDLE)])
         = live_after creates_process exits_process
             [event_step (CREATE_PROCESS_DEBUG_EVENT 5 6 7) 100 1,
              event_step (CREATE_PROCESS_DEBUG_EVENT 8 9 10) 200 2,
              event_step (CREATE_THREAD_DEBUG_EVENT 11) 200 3,
              event_step (EXIT_PROCESS_DEBUG_EVENT 9) 200 2] pid)
   \<and> (\<forall>tid. (tid \<in> dom [1 \<mapsto> (7::HANDLE), 3 \<mapsto> 11])
         = live_after creates_thread exits_thread
             [event_step (CREATE_PROCESS_DEBUG_EVENT 5 6 7) 100 1,
              event_step (CREATE_PROCESS_DEBUG_EVENT 8 9 10) 200 2,
              event_step (CREATE_THREAD_DEBUG_EVENT 11) 200 3,
              event_step (EXIT_PROCESS_DEBUG_EVENT 9) 200 2] tid)"
proof -
  have run: "Debug_after (Debug_start (Debugger_new True False False False ''dumps''))
       [event_step (CREATE_PROCESS_DEBUG_EVENT 5 6 7) 100 1,
        event_step (CREATE_PROCESS_DEBUG_EVENT 8 9 10) 200 2,
        event_step (CREATE_THREAD_DEBUG_EVENT 11) 200 3,
        event_step (EXIT_PROCESS_DEBUG_EVENT 9) 200 2]
     = Some (None,
         (Debugger_new True False False False ''dumps'')
           \<lparr>processHandles := [100 \<mapsto> 6], threadHandles := [1 \<mapsto> 7, 3 \<mapsto> 11],
            rootProcessId := Some 100\<rparr>,
         [Process_Start DEBUG_PROCESS, ContinueDebugEvent 100 1 DBG_CONTINUE,
          ContinueDebugEvent 200 2 DBG_CONTINUE, ContinueDebugEvent 200 3 DBG_CONTINUE,
          ContinueDebugEvent 200 2 DBG_CONTINUE])"
    by (simp add: run_defs fun_eq_iff)
  show ?thesis
    using run tables_hold_the_live_ids [OF run] by simp
qed

subsection \<open>The root process id\<close>

text \<open>
  C8. After every sequence of steps the loop has handled, the root process id is the
  process id of the first \<open>CREATE_PROCESS\<close> event of the sequence (and unset while there
  has been none): the first such event sets it and no later event changes it.
\<close>

theorem rootProcessId_is_first_created_process:
  assumes "Debug_after (Debug_start d) steps = Some (latch, d', calls)"
  shows "rootProcessId d' = root_pid steps"
  using Debug_after_invariants [OF assms] by simp

text \<open>
  A thread event, then the creation of process 100, then of process 200: the root is 100.
\<close>

theorem rootProcessId_is_first_created_process_witness:
  "Debug_after (Debug_start (Debugger_new True False False False ''dumps''))
       [event_step (CREATE_THREAD_DEBUG_EVENT 11) 300 3,
        event_step (CREATE_PROCESS_DEBUG_EVENT 5 6 7) 100 1,
        event_step (CREATE_PROCESS_DEBUG_EVENT 8 9 10) 200 2]
     = Some (None,
         (Debugger_new True False False False ''dumps'')
           \<lparr>processHandles := [100 \<mapsto> 6, 200 \<mapsto> 9],
            threadHandles := [3 \<mapsto> 11, 1 \<mapsto> 7, 2 \<mapsto> 10],
            rootProcessId := Some 100\<rparr>,
         [Process_Start DEBUG_PROCESS, ContinueDebugEvent 300 3 DBG_CONTINUE,
          ContinueDebugEvent 100 1 DBG_CONTINUE, ContinueDebugEvent 200 2 DBG_CONTINUE])
   \<and> root_pid
       [event_step (CREATE_THREAD_DEBUG_EVENT 11) 300 3,
        event_step (CREATE_PROCESS_DEBUG_EVENT 5 6 7) 100 1,
        event_step (CREATE_PROCESS_DEBUG_EVENT 8 9 10) 200 2] = Some 100"
proof -
  have run: "Debug_after (Debug_start (Debugger_new True False False False ''dumps''))
       [event_step (CREATE_THREAD_DEBUG_EVENT 11) 300 3,
        event_step (CREATE_PROCESS_DEBUG_EVENT 5 6 7) 100 1,
        event_step (CREATE_PROCESS_DEBUG_EVENT 8 9 10) 200 2]
     = Some (None,
         (Debugger_new True False False False ''dumps'')
           \<lparr>processHandles := [100 \<mapsto> 6, 200 \<mapsto> 9],
            threadHandles := [3 \<mapsto> 11, 1 \<mapsto> 7, 2 \<mapsto> 10],
            rootProcessId := Some 100\<rparr>,
         [Process_Start DEBUG_PROCESS, ContinueDebugEvent 300 3 DBG_CONTINUE,
          ContinueDebugEvent 100 1 DBG_CONTINUE, ContinueDebugEvent 200 2 DBG_CONTINUE])"
    by (simp add: run_defs)
  show ?thesis
    using run rootProcessId_is_first_created_process [OF run] by simp
qed

subsection \<open>The exit code\<close>

text \<open>
  C2. The root process 100 and a child 200 are created, with distinct initial threads, and
  exit with the codes 7 and 9. Whether the root or the child exits first, \<open>Debug\<close>
  returns 7 and the process table is empty when it returns.
\<close>

theorem Debug_latches_root_exit_code:
  assumes "t1 \<noteq> t2"
  shows "Debug d [event_step (CREATE_PROCESS_DEBUG_EVENT f1 p1 h1) 100 t1,
            event_step (CREATE_PROCESS_DEBUG_EVENT f2 p2 h2) 200 t2,
            event_step (EXIT_PROCESS_DEBUG_EVENT 7) 100 t1,
            event_step (EXIT_PROCESS_DEBUG_EVENT 9) 200 t2]
         = Returns 7
             (d\<lparr>processHandles := Map.empty, threadHandles := Map.empty,
                rootProcessId := Some 100\<rparr>)
             [Process_Start (if coverChildren d then DEBUG_PROCESS else DEBUG_ONLY_THIS_PROCESS),
              ContinueDebugEvent 100 t1 DBG_CONTINUE, ContinueDebugEvent 200 t2 DBG_CONTINUE,
              ContinueDebugEvent 100 t1 DBG_CONTINUE, ContinueDebugEvent 200 t2 DBG_CONTINUE]
       \<and> Debug d [event_step (CREATE_PROCESS_DEBUG_EVENT f1 p1 h1) 100 t1,
            event_step (CREATE_PROCESS_DEBUG_EVENT f2 p2 h2) 200 t2,
            event_step (EXIT_PROCESS_DEBUG_EVENT 9) 200 t2,
            event_step (EXIT_PROCESS_DEBUG_EVENT 7) 100 t1]
         = Returns 7
             (d\<lparr>processHandles := Map.empty, threadHandles := Map.empty,
                rootProcessId := Some 100\<rparr>)
             [Process_Start (if coverChildren d then DEBUG_PROCESS else DEBUG_ONLY_THIS_PROCESS),
              ContinueDebugEvent 100 t1 DBG_CONTINUE, ContinueDebugEvent 200 t2 DBG_CONTINUE,
              ContinueDebugEvent 200 t2 DBG_CONTINUE, ContinueDebugEvent 100 t1 DBG_CONTINUE]"
  using assms by (simp add: run_defs)

text \<open>The same with the threads 1 and 2.\<close>

theorem Debug_latches_root_exit_code_witness:
  "(1::DWORD) \<noteq> 2
   \<and> Debug (Debugger_new True False False False ''dumps'')
       [event_step (CREATE_PROCESS_DEBUG_EVENT 5 6 7) 100 1,
        event_step (CREATE_PROCESS_DEBUG_EVENT 8 9 10) 200 2,
        event_step (EXIT_PROCESS_DEBUG_EVENT 7) 100 1,
        event_step (EXIT_PROCESS_DEBUG_EVENT 9) 200 2]
     = Returns 7
         ((Debugger_new True False False False ''dumps'')\<lparr>rootProcessId := Some 100\<rparr>)
         [Process_Start DEBUG_PROCESS,
          ContinueDebugEvent 100 1 DBG_CONTINUE, ContinueDebugEvent 200 2 DBG_CONTINUE,
          ContinueDebugEvent 100 1 DBG_CONTINUE, ContinueDebugEvent 200 2 DBG_CONTINUE]"
proof -
  have ne: "(1::DWORD) \<noteq> 2" by simp
  show ?thesis
    using ne Debug_latches_root_exit_code [OF ne,
        of "Debugger_new True False False False ''dumps''" 5 6 7 8 9 10]
    by (simp add: Debugger_new_def)
qed

text \<open>
  C3 as stated, that the returned exit code is the one of the root's \<open>EXIT_PROCESS\<close>
  event, fails: with \<open>stopOnAssert\<close> off, an exception of the root process classified
  \<open>InvalidBreakPoint\<close> latches \<open>EXCEPTION_BREAKPOINT\<close>, and the root's later exit with
  code 0 does not replace it.
\<close>

theorem breakpoint_code_overrides_root_exit_code:
  "Debug (Debugger_new True False False False ''dumps'')
      [event_step (CREATE_PROCESS_DEBUG_EVENT 5 6 7) 100 1,
       exception_step 0x80000003 True InvalidBreakPoint 100 1,
       event_step (EXIT_PROCESS_DEBUG_EVENT 0) 100 1]
    = Returns (- 2147483645)
        ((Debugger_new True False False False ''dumps'')\<lparr>rootProcessId := Some 100\<rparr>)
        [Process_Start DEBUG_PROCESS, ContinueDebugEvent 100 1 DBG_CONTINUE,
         ContinueDebugEvent 100 1 DBG_CONTINUE, ContinueDebugEvent 100 1 DBG_CONTINUE]
   \<and> root_exit_code
      [event_step (CREATE_PROCESS_DEBUG_EVENT 5 6 7) 100 1,
       exception_step 0x80000003 True InvalidBreakPoint 100 1,
       event_step (EXIT_PROCESS_DEBUG_EVENT 0) 100 1] = Some 0"
  by (simp add: run_defs HandleCrashDump_def spec_defs EXCEPTION_BREAKPOINT_def)

text \<open>
  C3, amended. When \<open>Debug\<close> returns, it returns the first exit code carried by the
  status of an event of the root process: that of its \<open>EXIT_PROCESS\<close> event, or
  \<open>EXCEPTION_BREAKPOINT\<close> for an earlier \<open>InvalidBreakPoint\<close> exception when
  \<open>stopOnAssert\<close> is off, or the exception code of an earlier \<open>CppError\<close> exception
  when \<open>continueAfterCppException\<close> is on. When no event of the root process is such an
  exception, it is the exit code of the root's \<open>EXIT_PROCESS\<close> event, whatever the
  descendants do. The exit code of a status is set by every \<open>EXIT_PROCESS\<close> event, of
  the root or not, and by those two kinds of exception.
\<close>

theorem Debug_returns_first_root_status_code:
  "(Debug d script = Returns c d' calls \<longrightarrow>
      first_root_status_code d script = Some c
      \<and> ((\<forall>step \<in> set script. \<forall>r. root_pid script = Some r \<longrightarrow> about_process step r
              \<longrightarrow> \<not> swallowed_exception d step)
           \<longrightarrow> root_exit_code script = Some c))
   \<and> (HandleDebugEvent d e debugEventsHandler = Inr (status, d2, dump) \<longrightarrow>
      exitCode status
        = status_exit_code d
            \<lparr> delivered = Some e, handler = debugEventsHandler, continue_ok = True \<rparr>)"
proof -
  have returned: "first_root_status_code d script = Some c
      \<and> ((\<forall>step \<in> set script. \<forall>r. root_pid script = Some r \<longrightarrow> about_process step r
              \<longrightarrow> \<not> swallowed_exception d step)
           \<longrightarrow> root_exit_code script = Some c)"
    if run: "Debug d script = Returns c d' calls"
  proof -
    from run obtain n where
      "Debug_after (Debug_start d) (take n script) = Some (Some c, d', calls)"
      unfolding Debug_def by (blast dest: Debug_loop_Returns)
    then have "first_root_status_code d (take n script) = Some c"
      using Debug_after_invariants by fastforce
    then have "first_root_status_code d (take n script @ drop n script) = Some c"
      by (rule first_root_status_code_append)
    then have first: "first_root_status_code d script = Some c" by simp
    with root_exit_code_eq_first_root_status_code [of script d] show ?thesis by simp
  qed
  have carried: "exitCode status
        = status_exit_code d
            \<lparr> delivered = Some e, handler = debugEventsHandler, continue_ok = True \<rparr>"
    if "HandleDebugEvent d e debugEventsHandler = Inr (status, d2, dump)"
    using that by (rule HandleDebugEvent_exitCode)
  from returned carried show ?thesis by blast
qed

text \<open>
  The child raises the swallowed exception and exits before the root does: the result is
  the root's exit code 7, although the status of the child's exit carries its code 9.
\<close>

theorem Debug_returns_first_root_status_code_witness:
  "Debug (Debugger_new True False False False ''dumps'')
      [event_step (CREATE_PROCESS_DEBUG_EVENT 5 6 7) 100 1,
       event_step (CREATE_PROCESS_DEBUG_EVENT 8 9 10) 200 2,
       exception_step 0x80000003 True InvalidBreakPoint 200 2,
       event_step (EXIT_PROCESS_DEBUG_EVENT 9) 200 2,
       event_step (EXIT_PROCESS_DEBUG_EVENT 7) 100 1]
    = Returns 7
        ((Debugger_new True False False False ''dumps'')\<lparr>rootProcessId := Some 100\<rparr>)
        [Process_Start DEBUG_PROCESS, ContinueDebugEvent 100 1 DBG_CONTINUE,
         ContinueDebugEvent 200 2 DBG_CONTINUE, ContinueDebugEvent 200 2 DBG_CONTINUE,
         ContinueDebugEvent 200 2 DBG_CONTINUE, ContinueDebugEvent 100 1 DBG_CONTINUE]
   \<and> first_root_status_code (Debugger_new True False False False ''dumps'')
      [event_step (CREATE_PROCESS_DEBUG_EVENT 5 6 7) 100 1,
       event_step (CREATE_PROCESS_DEBUG_EVENT 8 9 10) 200 2,
       exception_step 0x80000003 True InvalidBreakPoint 200 2,
       event_step (EXIT_PROCESS_DEBUG_EVENT 9) 200 2,
       event_step (EXIT_PROCESS_DEBUG_EVENT 7) 100 1] = Some 7
   \<and> root_exit_code
      [event_step (CREATE_PROCESS_DEBUG_EVENT 5 6 7) 100 1,
       event_step (CREATE_PROCESS_DEBUG_EVENT 8 9 10) 200 2,
       exception_step 0x80000003 True InvalidBreakPoint 200 2,
       event_step (EXIT_PROCESS_DEBUG_EVENT 9) 200 2,
       event_step (EXIT_PROCESS_DEBUG_EVENT 7) 100 1] = Some 7
   \<and> HandleDebugEvent
        ((Debugger_new True False False False ''dumps'')
          \<lparr>processHandles := [100 \<mapsto> 6, 200 \<mapsto> 9], threadHandles := [1 \<mapsto> 7, 2 \<mapsto> 10],
           rootProcessId := Some 100\<rparr>)
        (debug_event (EXIT_PROCESS_DEBUG_EVENT 9) 200 2) (Handler_returns BreakPoint)
      = Inr (\<lparr> exitCode = Some 9, continueStatus = None \<rparr>,
          (Debugger_new True False False False ''dumps'')
            \<lparr>processHandles := [100 \<mapsto> 6], threadHandles := [1 \<mapsto> 7],
             rootProcessId := Some 100\<rparr>, [])
   \<and> status_exit_code
        ((Debugger_new True False False False ''dumps'')
          \<lparr>processHandles := [100 \<mapsto> 6, 200 \<mapsto> 9], threadHandles := [1 \<mapsto> 7, 2 \<mapsto> 10],
           rootProcessId := Some 100\<rparr>)
        \<lparr> delivered = Some (debug_event (EXIT_PROCESS_DEBUG_EVENT 9) 200 2),
          handler = Handler_returns BreakPoint, continue_ok = True \<rparr> = Some 9"
proof -
  let ?d = "Debugger_new True False False False ''dumps''"
  let ?script = "[event_step (CREATE_PROCESS_DEBUG_EVENT 5 6 7) 100 1,
       event_step (CREATE_PROCESS_DEBUG_EVENT 8 9 10) 200 2,
       exception_step 0x80000003 True InvalidBreakPoint 200 2,
       event_step (EXIT_PROCESS_DEBUG_EVENT 9) 200 2,
       event_step (EXIT_PROCESS_DEBUG_EVENT 7) 100 1]"
  let ?mid = "?d\<lparr>processHandles := [100 \<mapsto> 6, 200 \<mapsto> 9],
      threadHandles := [1 \<mapsto> 7, 2 \<mapsto> 10], rootProcessId := Some 100\<rparr>"
  let ?exit = "debug_event (EXIT_PROCESS_DEBUG_EVENT 9) 200 2"
  have run: "Debug ?d ?script
    = Returns 7 (?d\<lparr>rootProcessId := Some 100\<rparr>)
        [Process_Start DEBUG_PROCESS, ContinueDebugEvent 100 1 DBG_CONTINUE,
         ContinueDebugEvent 200 2 DBG_CONTINUE, ContinueDebugEvent 200 2 DBG_CONTINUE,
         ContinueDebugEvent 200 2 DBG_CONTINUE, ContinueDebugEvent 100 1 DBG_CONTINUE]"
    by (simp add: run_defs HandleCrashDump_def)
  have root: "root_pid ?script = Some 100"
    by (simp add: root_pid_def delivers_create_process_def event_step_def)
  have calm: "\<forall>step \<in> set ?script. \<forall>r. root_pid ?script = Some r \<longrightarrow> about_process step r
               \<longrightarrow> \<not> swallowed_exception ?d step"
    unfolding root
    by (simp add: about_process_def swallowed_exception_def event_step_def exception_step_def)
  have child: "HandleDebugEvent ?mid ?exit (Handler_returns BreakPoint)
      = Inr (\<lparr> exitCode = Some 9, continueStatus = None \<rparr>,
          ?d\<lparr>processHandles := [100 \<mapsto> 6], threadHandles := [1 \<mapsto> 7],
             rootProcessId := Some 100\<rparr>, [])"
    by (simp add: handler_defs Debugger_new_def debug_event_def fun_eq_iff)
  from run calm
    Debug_returns_first_root_status_code [where d = ?d and script = ?script and c = 7
      and d' = "?d\<lparr>rootProcessId := Some 100\<rparr>"]
  have part1: "first_root_status_code ?d ?script = Some 7 \<and> root_exit_code ?script = Some 7"
    by blast
  from child
    Debug_returns_first_root_status_code [where d = ?mid and e = ?exit
      and debugEventsHandler = "Handler_returns BreakPoint"]
  have part2: "status_exit_code ?mid
        \<lparr> delivered = Some ?exit, handler = Handler_returns BreakPoint,
          continue_ok = True \<rparr> = Some 9"
    by (metis ProcessStatus.select_convs(1))
  from run part1 child part2 show ?thesis by blast
qed

subsection \<open>Invalid breakpoints\<close>

text \<open>
  C7. For an exception that the handler classifies \<open>InvalidBreakPoint\<close>: with
  \<open>stopOnAssert\<close> off the status holds \<open>DBG_CONTINUE\<close> and the exit code
  \<open>EXCEPTION_BREAKPOINT\<close>, with \<open>stopOnAssert\<close> on it holds
  \<open>DBG_EXCEPTION_NOT_HANDLED\<close> and no exit code; a minidump is asked for exactly when
  \<open>dumpOnCrash\<close> is on, first chance or not; and the loop, given the event for a known
  process and thread, resumes the thread with that status and goes on.
\<close>

theorem InvalidBreakPoint_directive_and_dump:
  assumes "delivered step = Some e"
    and "dwDebugEventCode e = EXCEPTION_DEBUG_EVENT ExceptionCode dwFirstChance"
    and "handler step = Handler_returns InvalidBreakPoint"
    and "continue_ok step"
    and "processHandles d (dwProcessId e) = Some hProcess"
    and "threadHandles d (dwThreadId e) = Some hThread"
  shows "OnException d e ExceptionCode dwFirstChance (Handler_returns InvalidBreakPoint)
           = Inr (\<lparr> exitCode = (if stopOnAssert d then None else Some (sint EXCEPTION_BREAKPOINT)),
                    continueStatus = Some (if stopOnAssert d then DBG_EXCEPTION_NOT_HANDLED
                                           else DBG_CONTINUE) \<rparr>,
                  if dumpOnCrash d
                  then [CreateMiniDumpFromException (dwProcessId e) (dwThreadId e)] else [])
       \<and> Debug_iteration step (latch, d, calls)
           = Inr (if \<not> stopOnAssert d \<and> rootProcessId d = Some (dwProcessId e) \<and> latch = None
                  then Some (sint EXCEPTION_BREAKPOINT) else latch,
                  d,
                  calls
                  @ (if dumpOnCrash d
                     then [CreateMiniDumpFromException (dwProcessId e) (dwThreadId e)] else [])
                  @ [ContinueDebugEvent (dwProcessId e) (dwThreadId e)
                       (if stopOnAssert d then DBG_EXCEPTION_NOT_HANDLED else DBG_CONTINUE)])
       \<and> (\<forall>latch' calls'. Debug_continues (latch', d, calls'))"
proof -
  have ex: "OnException d e ExceptionCode dwFirstChance (Handler_returns InvalidBreakPoint)
           = Inr (\<lparr> exitCode = (if stopOnAssert d then None else Some (sint EXCEPTION_BREAKPOINT)),
                    continueStatus = Some (if stopOnAssert d then DBG_EXCEPTION_NOT_HANDLED
                                           else DBG_CONTINUE) \<rparr>,
                  if dumpOnCrash d
                  then [CreateMiniDumpFromException (dwProcessId e) (dwThreadId e)] else [])"
    by (simp add: OnException_def HandleCrashDump_def)
  have hd: "HandleDebugEvent d e (Handler_returns InvalidBreakPoint)
           = Inr (\<lparr> exitCode = (if stopOnAssert d then None else Some (sint EXCEPTION_BREAKPOINT)),
                    continueStatus = Some (if stopOnAssert d then DBG_EXCEPTION_NOT_HANDLED
                                           else DBG_CONTINUE) \<rparr>, d,
                  if dumpOnCrash d
                  then [CreateMiniDumpFromException (dwProcessId e) (dwThreadId e)] else [])"
    using assms(2,5,6) ex
    by (simp add: HandleDebugEvent_def HandleNotCreationalEvent_def GetProcessHandle_def
        GetThreadHandle_def)
  have it: "Debug_iteration step (latch, d, calls)
           = Inr (if \<not> stopOnAssert d \<and> rootProcessId d = Some (dwProcessId e) \<and> latch = None
                  then Some (sint EXCEPTION_BREAKPOINT) else latch,
                  d,
                  calls
                  @ (if dumpOnCrash d
                     then [CreateMiniDumpFromException (dwProcessId e) (dwThreadId e)] else [])
                  @ [ContinueDebugEvent (dwProcessId e) (dwThreadId e)
                       (if stopOnAssert d then DBG_EXCEPTION_NOT_HANDLED else DBG_CONTINUE)])"
    using assms(1,3,4) hd by simp
  have "processHandles d \<noteq> Map.empty" using assms(5) by auto
  then have go: "\<forall>latch' calls'. Debug_continues (latch', d, calls')" by simp
  from ex it go show ?thesis by blast
qed

text \<open>A first-chance breakpoint in process 100 with \<open>dumpOnCrash\<close> on.\<close>

theorem InvalidBreakPoint_directive_and_dump_witness:
  "OnException
       ((Debugger_new True False False True ''dumps'')
          \<lparr>processHandles := [100 \<mapsto> 6], threadHandles := [1 \<mapsto> 7], rootProcessId := Some 100\<rparr>)
       (debug_event (EXCEPTION_DEBUG_EVENT 0x80000003 True) 100 1) 0x80000003 True
       (Handler_returns InvalidBreakPoint)
     = Inr (\<lparr> exitCode = Some (sint EXCEPTION_BREAKPOINT), continueStatus = Some DBG_CONTINUE \<rparr>,
            [CreateMiniDumpFromException 100 1])
   \<and> Debug_iteration (exception_step 0x80000003 True InvalidBreakPoint 100 1)
       (None,
        (Debugger_new True False False True ''dumps'')
          \<lparr>processHandles := [100 \<mapsto> 6], threadHandles := [1 \<mapsto> 7], rootProcessId := Some 100\<rparr>,
        [])
     = Inr (Some (sint EXCEPTION_BREAKPOINT),
        (Debugger_new True False False True ''dumps'')
          \<lparr>processHandles := [100 \<mapsto> 6], threadHandles := [1 \<mapsto> 7], rootProcessId := Some 100\<rparr>,
        [CreateMiniDumpFromException 100 1, ContinueDebugEvent 100 1 DBG_CONTINUE])"
proof -
  let ?d = "(Debugger_new True False False True ''dumps'')
          \<lparr>processHandles := [100 \<mapsto> 6], threadHandles := [1 \<mapsto> 7], rootProcessId := Some 100\<rparr>"
  let ?e = "debug_event (EXCEPTION_DEBUG_EVENT 0x80000003 True) 100 1"
  let ?step = "exception_step 0x80000003 True InvalidBreakPoint 100 1"
  have a1: "delivered ?step = Some ?e" by (simp add: exception_step_def debug_event_def)
  have a2: "dwDebugEventCode ?e = EXCEPTION_DEBUG_EVENT 0x80000003 True"
    by (simp add: debug_event_def)
  have a3: "handler ?step = Handler_returns InvalidBreakPoint"
    by (simp add: exception_step_def)
  have a4: "continue_ok ?step" by (simp add: exception_step_def)
  have a5: "processHandles ?d (dwProcessId ?e) = Some 6" by (simp add: debug_event_def)
  have a6: "threadHandles ?d (dwThreadId ?e) = Some 7" by (simp add: debug_event_def)
  show ?thesis
    using InvalidBreakPoint_directive_and_dump [OF a1 a2 a3 a4 a5 a6, of None "[]"]
    by (simp add: Debugger_new_def debug_event_def)
qed

subsection \<open>Failures\<close>

text \<open>
  C9 as stated fails: a \<open>LOAD_DLL\<close> event of a process that is not in the table makes
  the handling fail with an invariant-violation error although it is none of the listed
  situations, and an \<open>EXIT_THREAD\<close> event of an unknown thread fails in the lookup of
  the handle, before \<open>OnExitThread\<close> could throw. In both the handler is not even called.
\<close>

theorem unlisted_failure_counterexample:
  "HandleDebugEvent
       ((Debugger_new True False False False ''dumps'')
          \<lparr>processHandles := [100 \<mapsto> 6], threadHandles := [1 \<mapsto> 7], rootProcessId := Some 100\<rparr>)
       (debug_event (LOAD_DLL_DEBUG_EVENT 8) 999 1) (Handler_returns BreakPoint)
     = Inl std_out_of_range
   \<and> invariant_violation std_out_of_range
   \<and> \<not> listed_violation
       ((Debugger_new True False False False ''dumps'')
          \<lparr>processHandles := [100 \<mapsto> 6], threadHandles := [1 \<mapsto> 7], rootProcessId := Some 100\<rparr>)
       (debug_event (LOAD_DLL_DEBUG_EVENT 8) 999 1) (Handler_returns BreakPoint)
   \<and> HandleDebugEvent
       ((Debugger_new True False False False ''dumps'')
          \<lparr>processHandles := [100 \<mapsto> 6], threadHandles := [1 \<mapsto> 7], rootProcessId := Some 100\<rparr>)
       (debug_event EXIT_THREAD_DEBUG_EVENT 100 5) (Handler_returns BreakPoint)
     = Inl std_out_of_range"
  by (simp add: handler_defs Debugger_new_def debug_event_def listed_violation_def)

text \<open>Every way in which the handling of one event fails, with the error of each.\<close>

lemma HandleDebugEvent_error:
  "(HandleDebugEvent d e debugEventsHandler = Inl err) =
     ((is_create_process (dwDebugEventCode e) \<and> processHandles d (dwProcessId e) \<noteq> None
         \<and> err = CppCoverageException ''Process id already exist'')
      \<or> (is_create_process (dwDebugEventCode e) \<and> processHandles d (dwProcessId e) = None
         \<and> debugEventsHandler = Handler_raises \<and> err = HandlerRaised)
      \<or> (is_create_process (dwDebugEventCode e) \<and> processHandles d (dwProcessId e) = None
         \<and> debugEventsHandler \<noteq> Handler_raises \<and> threadHandles d (dwThreadId e) \<noteq> None
         \<and> err = CppCoverageException ''Thread id already exist'')
      \<or> (is_create_thread (dwDebugEventCode e) \<and> threadHandles d (dwThreadId e) \<noteq> None
         \<and> err = CppCoverageException ''Thread id already exist'')
      \<or> (\<not> is_create_process (dwDebugEventCode e) \<and> \<not> is_create_thread (dwDebugEventCode e)
         \<and> (processHandles d (dwProcessId e) = None \<or> threadHandles d (dwThreadId e) = None)
         \<and> err = std_out_of_range)
      \<or> (notifies_handler (dwDebugEventCode e) \<and> \<not> is_create_process (dwDebugEventCode e)
         \<and> processHandles d (dwProcessId e) \<noteq> None \<and> threadHandles d (dwThreadId e) \<noteq> None
         \<and> debugEventsHandler = Handler_raises \<and> err = HandlerRaised)
      \<or> (is_exception (dwDebugEventCode e) \<and> processHandles d (dwProcessId e) \<noteq> None
         \<and> threadHandles d (dwThreadId e) \<noteq> None
         \<and> debugEventsHandler = Handler_returns NoEnumerator
         \<and> err = CppCoverageException ''Invalid exception Type.''))"
proof (cases "is_create_process (dwDebugEventCode e) \<or> is_create_thread (dwDebugEventCode e)")
  case True
  then show ?thesis
    by (cases "dwDebugEventCode e")
       (auto simp: HandleDebugEvent_def OnCreateProcess_def OnCreateThread_def Let_def
          split: sum.splits if_splits)
next
  case False
  then have dispatch: "HandleDebugEvent d e debugEventsHandler =
      (case GetProcessHandle d (dwProcessId e) of
         Inl e' \<Rightarrow> Inl e'
       | Inr hProcess \<Rightarrow>
           (case GetThreadHandle d (dwThreadId e) of
              Inl e' \<Rightarrow> Inl e'
            | Inr hThread \<Rightarrow>
                HandleNotCreationalEvent d e debugEventsHandler hProcess hThread
                  (dwThreadId e)))"
    by (cases "dwDebugEventCode e") (simp_all add: HandleDebugEvent_def)
  show ?thesis
  proof (cases "processHandles d (dwProcessId e)")
    case None
    with False dispatch show ?thesis by (auto simp: GetProcessHandle_def)
  next
    case (Some hProcess)
    note hp = this
    show ?thesis
    proof (cases "threadHandles d (dwThreadId e)")
      case None
      with False dispatch hp show ?thesis
        by (auto simp: GetProcessHandle_def GetThreadHandle_def)
    next
      case (Some hThread)
      with False dispatch hp
        HandleNotCreationalEvent_fails_iff [OF hp Some, of debugEventsHandler err]
      show ?thesis
        by (auto simp: GetProcessHandle_def GetThreadHandle_def)
    qed
  qed
qed

lemma Debug_iteration_error:
  "(Debug_iteration step (latch, d, calls) = Inl err) =
     (delivered step = None \<and> err = LastError ''Error WaitForDebugEvent:''
      \<or> (\<exists>e. delivered step = Some e
            \<and> (HandleDebugEvent d e (handler step) = Inl err
               \<or> (\<exists>r. HandleDebugEvent d e (handler step) = Inr r) \<and> \<not> continue_ok step
                  \<and> err = LastError ''Error in ContinueDebugEvent:'')))"
  by (auto simp: Let_def split: option.splits sum.splits prod.splits)

text \<open>
  C9, amended. Handling an event fails with an invariant-violation error (an exception
  of the debugger's own: a \<open>THROW\<close> or the \<open>std::out_of_range\<close> of a handle lookup) in
  exactly these situations: a \<open>CREATE_PROCESS\<close> event whose process id is in the process
  table; a \<open>CREATE_THREAD\<close> event, or a \<open>CREATE_PROCESS\<close> event of a new process id
  whose notification of the handler returns, whose thread id is in the thread table; any
  other event whose process id or thread id is not in its table; and an exception of a
  known process and thread that the handler classifies as none of the five kinds. The
  handling fails in one more way only, which is not an invariant violation: the call of
  the handler raises. And one pass of the loop fails with an invariant-violation error
  exactly when the handling of the delivered event does.
\<close>

theorem HandleDebugEvent_fails_iff:
  "((HandleDebugEvent d e debugEventsHandler = Inl err \<and> invariant_violation err) =
     ((is_create_process (dwDebugEventCode e) \<and> processHandles d (dwProcessId e) \<noteq> None
         \<and> err = CppCoverageException ''Process id already exist'')
      \<or> (is_create_process (dwDebugEventCode e) \<and> processHandles d (dwProcessId e) = None
         \<and> debugEventsHandler \<noteq> Handler_raises \<and> threadHandles d (dwThreadId e) \<noteq> None
         \<and> err = CppCoverageException ''Thread id already exist'')
      \<or> (is_create_thread (dwDebugEventCode e) \<and> threadHandles d (dwThreadId e) \<noteq> None
         \<and> err = CppCoverageException ''Thread id already exist'')
      \<or> (\<not> is_create_process (dwDebugEventCode e) \<and> \<not> is_create_thread (dwDebugEventCode e)
         \<and> (processHandles d (dwProcessId e) = None \<or> threadHandles d (dwThreadId e) = None)
         \<and> err = std_out_of_range)
      \<or> (is_exception (dwDebugEventCode e) \<and> processHandles d (dwProcessId e) \<noteq> None
         \<and> threadHandles d (dwThreadId e) \<noteq> None
         \<and> debugEventsHandler = Handler_returns NoEnumerator
         \<and> err = CppCoverageException ''Invalid exception Type.'')))
   \<and> ((HandleDebugEvent d e debugEventsHandler = Inl err \<and> \<not> invariant_violation err) =
     (debugEventsHandler = Handler_raises \<and> err = HandlerRaised
      \<and> notifies_handler (dwDebugEventCode e)
      \<and> (if is_create_process (dwDebugEventCode e)
          then processHandles d (dwProcessId e) = None
          else processHandles d (dwProcessId e) \<noteq> None
             \<and> threadHandles d (dwThreadId e) \<noteq> None)))
   \<and> ((Debug_iteration step (latch, d, calls) = Inl err \<and> invariant_violation err) =
     (\<exists>event. delivered step = Some event
        \<and> HandleDebugEvent d event (handler step) = Inl err \<and> invariant_violation err))"
proof -
  have own: "(HandleDebugEvent d e debugEventsHandler = Inl err \<and> invariant_violation err) =
     ((is_create_process (dwDebugEventCode e) \<and> processHandles d (dwProcessId e) \<noteq> None
         \<and> err = CppCoverageException ''Process id already exist'')
      \<or> (is_create_process (dwDebugEventCode e) \<and> processHandles d (dwProcessId e) = None
         \<and> debugEventsHandler \<noteq> Handler_raises \<and> threadHandles d (dwThreadId e) \<noteq> None
         \<and> err = CppCoverageException ''Thread id already exist'')
      \<or> (is_create_thread (dwDebugEventCode e) \<and> threadHandles d (dwThreadId e) \<noteq> None
         \<and> err = CppCoverageException ''Thread id already exist'')
      \<or> (\<not> is_create_process (dwDebugEventCode e) \<and> \<not> is_create_thread (dwDebugEventCode e)
         \<and> (processHandles d (dwProcessId e) = None \<or> threadHandles d (dwThreadId e) = None)
         \<and> err = std_out_of_range)
      \<or> (is_exception (dwDebugEventCode e) \<and> processHandles d (dwProcessId e) \<noteq> None
         \<and> threadHandles d (dwThreadId e) \<noteq> None
         \<and> debugEventsHandler = Handler_returns NoEnumerator
         \<and> err = CppCoverageException ''Invalid exception Type.''))"
    unfolding HandleDebugEvent_error by (cases err) auto
  have foreign: "(HandleDebugEvent d e debugEventsHandler = Inl err \<and> \<not> invariant_violation err) =
     (debugEventsHandler = Handler_raises \<and> err = HandlerRaised
      \<and> notifies_handler (dwDebugEventCode e)
      \<and> (if is_create_process (dwDebugEventCode e)
          then processHandles d (dwProcessId e) = None
          else processHandles d (dwProcessId e) \<noteq> None
             \<and> threadHandles d (dwThreadId e) \<noteq> None))"
    unfolding HandleDebugEvent_error
    by (cases err; cases "dwDebugEventCode e") auto
  have pass: "(Debug_iteration step (latch, d, calls) = Inl err \<and> invariant_violation err) =
     (\<exists>event. delivered step = Some event
        \<and> HandleDebugEvent d event (handler step) = Inl err \<and> invariant_violation err)"
    unfolding Debug_iteration_error by (cases err) auto
  from own foreign pass show ?thesis by blast
qed

text \<open>
  A duplicate process id, a classification outside the enumeration, the exit of a process
  on an unknown thread, the same event delivered by the loop, and a handler that raises
  on the load of a library.
\<close>

theorem HandleDebugEvent_fails_iff_witness:
  "HandleDebugEvent
       ((Debugger_new True False False False ''dumps'')
          \<lparr>processHandles := [100 \<mapsto> 6], threadHandles := [1 \<mapsto> 7], rootProcessId := Some 100\<rparr>)
       (debug_event (CREATE_PROCESS_DEBUG_EVENT 8 9 10) 100 2) (Handler_returns BreakPoint)
     = Inl (CppCoverageException ''Process id already exist'')
   \<and> HandleDebugEvent
       ((Debugger_new True False False False ''dumps'')
          \<lparr>processHandles := [100 \<mapsto> 6], threadHandles := [1 \<mapsto> 7], rootProcessId := Some 100\<rparr>)
       (debug_event (EXCEPTION_DEBUG_EVENT 3 True) 100 1) (Handler_returns NoEnumerator)
     = Inl (CppCoverageException ''Invalid exception Type.'')
   \<and> HandleDebugEvent
       ((Debugger_new True False False False ''dumps'')
          \<lparr>processHandles := [100 \<mapsto> 6], threadHandles := [1 \<mapsto> 7], rootProcessId := Some 100\<rparr>)
       (debug_event (EXIT_PROCESS_DEBUG_EVENT 0) 100 5) (Handler_returns BreakPoint)
     = Inl std_out_of_range
   \<and> Debug_iteration (event_step (EXIT_PROCESS_DEBUG_EVENT 0) 100 5)
       (None,
        (Debugger_new True False False False ''dumps'')
          \<lparr>processHandles := [100 \<mapsto> 6], threadHandles := [1 \<mapsto> 7], rootProcessId := Some 100\<rparr>,
        [])
     = Inl std_out_of_range
   \<and> HandleDebugEvent
       ((Debugger_new True False False False ''dumps'')
          \<lparr>processHandles := [100 \<mapsto> 6], threadHandles := [1 \<mapsto> 7], rootProcessId := Some 100\<rparr>)
       (debug_event (LOAD_DLL_DEBUG_EVENT 8) 100 1) Handler_raises
     = Inl HandlerRaised"
proof -
  let ?d = "(Debugger_new True False False False ''dumps'')
      \<lparr>processHandles := [100 \<mapsto> 6], threadHandles := [1 \<mapsto> 7], rootProcessId := Some 100\<rparr>"
  have known: "processHandles ?d 100 = Some 6" "threadHandles ?d 1 = Some 7"
      "threadHandles ?d 2 = None" "threadHandles ?d 5 = None"
    by simp_all
  have duplicate: "HandleDebugEvent ?d (debug_event (CREATE_PROCESS_DEBUG_EVENT 8 9 10) 100 2)
       (Handler_returns BreakPoint) = Inl (CppCoverageException ''Process id already exist'')"
    using HandleDebugEvent_fails_iff [where d = ?d
        and e = "debug_event (CREATE_PROCESS_DEBUG_EVENT 8 9 10) 100 2"
        and debugEventsHandler = "Handler_returns BreakPoint"
        and err = "CppCoverageException ''Process id already exist''"] known
    by (simp add: debug_event_def)
  have unknown_kind: "HandleDebugEvent ?d (debug_event (EXCEPTION_DEBUG_EVENT 3 True) 100 1)
       (Handler_returns NoEnumerator) = Inl (CppCoverageException ''Invalid exception Type.'')"
    using HandleDebugEvent_fails_iff [where d = ?d
        and e = "debug_event (EXCEPTION_DEBUG_EVENT 3 True) 100 1"
        and debugEventsHandler = "Handler_returns NoEnumerator"
        and err = "CppCoverageException ''Invalid exception Type.''"] known
    by (simp add: debug_event_def)
  have unknown_thread: "HandleDebugEvent ?d (debug_event (EXIT_PROCESS_DEBUG_EVENT 0) 100 5)
       (Handler_returns BreakPoint) = Inl std_out_of_range"
    using HandleDebugEvent_fails_iff [where d = ?d
        and e = "debug_event (EXIT_PROCESS_DEBUG_EVENT 0) 100 5"
        and debugEventsHandler = "Handler_returns BreakPoint"
        and err = std_out_of_range] known
    by (simp add: debug_event_def)
  have in_loop: "Debug_iteration (event_step (EXIT_PROCESS_DEBUG_EVENT 0) 100 5) (None, ?d, [])
       = Inl std_out_of_range"
    using HandleDebugEvent_fails_iff [where d = ?d
        and step = "event_step (EXIT_PROCESS_DEBUG_EVENT 0) 100 5"
        and latch = None and calls = "[]" and err = std_out_of_range] unknown_thread
    by (simp add: event_step_def debug_event_def)
  have raised: "HandleDebugEvent ?d (debug_event (LOAD_DLL_DEBUG_EVENT 8) 100 1) Handler_raises
       = Inl HandlerRaised"
    using HandleDebugEvent_fails_iff [where d = ?d
        and e = "debug_event (LOAD_DLL_DEBUG_EVENT 8) 100 1"
        and debugEventsHandler = Handler_raises and err = HandlerRaised] known
    by (simp add: debug_event_def)
  from duplicate unknown_kind unknown_thread in_loop raised show ?thesis by blast
qed

subsection \<open>Repeated runs\<close>

text \<open>
  C10. \<open>Debug\<close> clears both tables and the root process id before the loop, so its
  result is the same whatever these three members held before; in particular a run on
  the debugger that a previous run has returned gives what it gives on the debugger
  before that run.
\<close>

theorem Debug_forgets_previous_run:
  "Debug (d\<lparr>processHandles := procs, threadHandles := threads, rootProcessId := root\<rparr>) script
       = Debug d script
   \<and> (Debug d previous = Returns c d' calls \<longrightarrow> Debug d' script = Debug d script)"
proof -
  have reset: "Debug (d\<lparr>processHandles := p, threadHandles := t, rootProcessId := r\<rparr>) script
       = Debug d script" for p t r
    by (simp add: Debug_def Debug_start_def)
  have "Debug d' script = Debug d script" if "Debug d previous = Returns c d' calls"
  proof -
    from that obtain p t r where
      "d' = (d\<lparr>processHandles := Map.empty, threadHandles := Map.empty, rootProcessId := None\<rparr>)
              \<lparr>processHandles := p, threadHandles := t, rootProcessId := r\<rparr>"
      unfolding Debug_def Debug_start_def by (blast dest: Debug_loop_changes)
    then have "d' = d\<lparr>processHandles := p, threadHandles := t, rootProcessId := r\<rparr>"
      by simp
    then show ?thesis using reset by simp
  qed
  with reset show ?thesis by blast
qed

text \<open>
  A first run returns with thread 2 still in the thread table and root 100. A second run
  that creates process 300 with initial thread 2 behaves as on a new debugger.
\<close>

theorem Debug_forgets_previous_run_witness:
  "Debug (Debugger_new True False False False ''dumps'')
       [event_step (CREATE_PROCESS_DEBUG_EVENT 5 6 7) 100 1,
        event_step (CREATE_THREAD_DEBUG_EVENT 8) 100 2,
        event_step (EXIT_PROCESS_DEBUG_EVENT 7) 100 1]
     = Returns 7
         ((Debugger_new True False False False ''dumps'')
            \<lparr>threadHandles := [2 \<mapsto> 8], rootProcessId := Some 100\<rparr>)
         [Process_Start DEBUG_PROCESS, ContinueDebugEvent 100 1 DBG_CONTINUE,
          ContinueDebugEvent 100 2 DBG_CONTINUE, ContinueDebugEvent 100 1 DBG_CONTINUE]
   \<and> Debug ((Debugger_new True False False False ''dumps'')
            \<lparr>threadHandles := [2 \<mapsto> 8], rootProcessId := Some 100\<rparr>)
       [event_step (CREATE_PROCESS_DEBUG_EVENT 5 6 7) 300 2,
        event_step (EXIT_PROCESS_DEBUG_EVENT 4) 300 2]
     = Debug (Debugger_new True False False False ''dumps'')
       [event_step (CREATE_PROCESS_DEBUG_EVENT 5 6 7) 300 2,
        event_step (EXIT_PROCESS_DEBUG_EVENT 4) 300 2]"
proof -
  have first: "Debug (Debugger_new True False False False ''dumps'')
       [event_step (CREATE_PROCESS_DEBUG_EVENT 5 6 7) 100 1,
        event_step (CREATE_THREAD_DEBUG_EVENT 8) 100 2,
        event_step (EXIT_PROCESS_DEBUG_EVENT 7) 100 1]
     = Returns 7
         ((Debugger_new True False False False ''dumps'')
            \<lparr>threadHandles := [2 \<mapsto> 8], rootProcessId := Some 100\<rparr>)
         [Process_Start DEBUG_PROCESS, ContinueDebugEvent 100 1 DBG_CONTINUE,
          ContinueDebugEvent 100 2 DBG_CONTINUE, ContinueDebugEvent 100 1 DBG_CONTINUE]"
    by (simp add: run_defs fun_eq_iff)
  from first Debug_forgets_previous_run [where d = "Debugger_new True False False False ''dumps''"
      and script = "[event_step (CREATE_PROCESS_DEBUG_EVENT 5 6 7) 300 2,
        event_step (EXIT_PROCESS_DEBUG_EVENT 4) 300 2]"
      and previous = "[event_step (CREATE_PROCESS_DEBUG_EVENT 5 6 7) 100 1,
        event_step (CREATE_THREAD_DEBUG_EVENT 8) 100 2,
        event_step (EXIT_PROCESS_DEBUG_EVENT 7) 100 1]"]
  show ?thesis by blast
qed

end
